theory Spec2Isabelle
  imports Main
begin

section \<open>Go values used by \<open>sbom/index.go\<close>\<close>

text \<open>
  A Go \<open>[]byte\<close> and a Go \<open>string\<close> are both byte sequences; \<open>char\<close> is a byte.
\<close>

type_synonym bytes = string

text \<open>
  Go errors are values. \<open>ErrNotExist\<close> and \<open>ErrPermission\<close> are the two errors of
  package \<open>os\<close> that the file system below produces, \<open>ErrorString\<close> is any other
  error of a collaborator, and \<open>Wrap e msg\<close> is \<open>errors.Wrap(e, msg)\<close> of
  \<open>github.com/pkg/errors\<close> (\<open>errors.Wrapf\<close> with its format already expanded).
\<close>

datatype error = ErrNotExist | ErrPermission | ErrorString string | Wrap error string

text \<open>
  A run-time panic ends the goroutine without a return value: dereferencing a nil
  pointer, or indexing a slice of length \<open>n\<close> at \<open>i \<ge> n\<close> (\<open>IndexOutOfRange i n\<close>).
\<close>

datatype panic = NilPointerDereference | IndexOutOfRange nat nat

definition strings_HasPrefix :: "string \<Rightarrow> string \<Rightarrow> bool" where
  "strings_HasPrefix s prefix = (take (length prefix) s = prefix)"

subsection \<open>The image handle (\<open>go-containerregistry/pkg/v1\<close>)\<close>

text \<open>
  \<open>v1.Hash\<close> prints as \<open>Algorithm:Hex\<close>. Of \<open>v1.ConfigFile\<close>, \<open>v1.Manifest\<close> and
  \<open>v1.Descriptor\<close> the fields that \<open>index.go\<close> reads are kept.
\<close>

record Hash =
  Algorithm :: string
  Hex :: string

definition Hash_String :: "Hash \<Rightarrow> string" where
  "Hash_String h = Algorithm h @ '':'' @ Hex h"

record RootFS =
  DiffIDs :: "Hash list"

record ConfigFile =
  Architecture :: string
  OS :: string
  Variant :: string
  RootFS :: RootFS

record v1_Descriptor =
  Size :: int
  Digest :: Hash

record Manifest =
  Config :: v1_Descriptor
  Layers :: "v1_Descriptor list"

text \<open>
  \<open>v1.Image\<close> is an interface; \<open>index.go\<close> calls five of its methods and drops the
  error of each (\<open>config, _ := img.ConfigFile()\<close>). A field holds what the method
  returns: for the two pointer results \<open>None\<close> is the nil pointer that comes with an
  error.
\<close>

record v1_Image =
  img_ConfigFile :: "ConfigFile option"
  img_Manifest :: "Manifest option"
  img_RawManifest :: bytes
  img_RawConfigFile :: bytes
  img_Digest :: Hash

section \<open>The layer mapping\<close>

text \<open>
  \<open>types.LayerMapping\<close>: five Go maps, each a partial function. Ordinals are slice
  indices (a Go \<open>int\<close> that is never negative here), so they are naturals.
\<close>

record LayerMapping =
  ByDiffId :: "string \<rightharpoonup> string"
  ByDigest :: "string \<rightharpoonup> string"
  DiffIdByOrdinal :: "nat \<rightharpoonup> string"
  DigestByOrdinal :: "nat \<rightharpoonup> string"
  OrdinalByDiffId :: "string \<rightharpoonup> nat"

definition emptyLayerMapping :: LayerMapping where
  "emptyLayerMapping =
     \<lparr>ByDiffId = Map.empty, ByDigest = Map.empty, DiffIdByOrdinal = Map.empty,
      DigestByOrdinal = Map.empty, OrdinalByDiffId = Map.empty\<rparr>"

text \<open>
  One iteration of \<open>for i := range layers\<close>: the five assignments of lines 196 to
  200, for \<open>layer = layers[i]\<close> and \<open>diffId = diffIds[i]\<close>.
\<close>

definition layerBody :: "nat \<Rightarrow> v1_Descriptor \<Rightarrow> Hash \<Rightarrow> LayerMapping \<Rightarrow> LayerMapping" where
  "layerBody i layer diffId lm =
     lm\<lparr>ByDiffId := (ByDiffId lm)(Hash_String diffId \<mapsto> Hash_String (Digest layer)),
        ByDigest := (ByDigest lm)(Hash_String (Digest layer) \<mapsto> Hash_String diffId),
        OrdinalByDiffId := (OrdinalByDiffId lm)(Hash_String diffId \<mapsto> i),
        DiffIdByOrdinal := (DiffIdByOrdinal lm)(i \<mapsto> Hash_String diffId),
        DigestByOrdinal := (DigestByOrdinal lm)(i \<mapsto> Hash_String (Digest layer))\<rparr>"

text \<open>
  The loop of lines 192 to 201. \<open>layerLoop diffIds i rest lm\<close> runs the iterations
  from index \<open>i\<close> on, \<open>rest\<close> being \<open>layers[i:]\<close>, so its head is \<open>layers[i]\<close>.
  \<open>diffIds[i]\<close> panics when \<open>i\<close> is not below \<open>len(diffIds)\<close>.
\<close>

fun layerLoop :: "Hash list \<Rightarrow> nat \<Rightarrow> v1_Descriptor list \<Rightarrow> LayerMapping \<Rightarrow> panic + LayerMapping" where
  "layerLoop diffIds i [] lm = Inr lm"
| "layerLoop diffIds i (layer # rest) lm =
     (if i < length diffIds then layerLoop diffIds (Suc i) rest (layerBody i layer (diffIds ! i) lm)
      else Inl (IndexOutOfRange i (length diffIds)))"

text \<open>
  \<open>createLayerMapping\<close> (lines 179 to 204). \<open>config.RootFS\<close> and \<open>manifest.Layers\<close>
  dereference the pointers whose errors were dropped.
\<close>

definition createLayerMapping :: "v1_Image \<Rightarrow> panic + LayerMapping" where
  "createLayerMapping img =
     (case img_ConfigFile img of
        None \<Rightarrow> Inl NilPointerDereference
      | Some config \<Rightarrow>
          (let diffIds = DiffIDs (RootFS config) in
           case img_Manifest img of
             None \<Rightarrow> Inl NilPointerDereference
           | Some manifest \<Rightarrow>
               (let layers = Layers manifest in
                layerLoop diffIds 0 layers emptyLayerMapping)))"

text \<open>The digests and the diff IDs of an image as the strings the maps are keyed by.\<close>

definition layerDigests :: "Manifest \<Rightarrow> string list" where
  "layerDigests m = map (\<lambda>l. Hash_String (Digest l)) (Layers m)"

definition layerDiffIds :: "ConfigFile \<Rightarrow> string list" where
  "layerDiffIds c = map Hash_String (DiffIDs (RootFS c))"

section \<open>The document\<close>

text \<open>
  Package \<open>types\<close> of the repository is not among the sources. \<open>index.go\<close> names the
  fields of \<open>Sbom\<close>, \<open>Source\<close>, \<open>ImageSource\<close>, \<open>Platform\<close> and \<open>Descriptor\<close> in the
  literal of lines 140 to 165, and reads \<open>Packages\<close> and \<open>Distro\<close> of an
  \<open>IndexResult\<close>; those records follow the source. A field whose name is taken by
  another record carries a prefix (\<open>src_Digest\<close> is \<open>ImageSource.Digest\<close>, \<open>ir_Distro\<close>
  is \<open>IndexResult.Distro\<close>, \<open>desc_Name\<close> is \<open>Descriptor.Name\<close>).
\<close>

text \<open>
  Modelled from the spec: \<open>types.Package\<close>, whose declaration is missing: "name,
  version, type/ecosystem, originating layer reference". No function of \<open>index.go\<close>
  looks inside a package.
\<close>

record Package =
  pkg_Name :: string
  pkg_Version :: string
  pkg_Type :: string
  pkg_Layer :: string

text \<open>
  Modelled from the spec: \<open>types.Distro\<close>, whose declaration is missing: "name/version
  of the base OS". \<open>index.go\<close> copies it from syft's result into the document.
\<close>

record Distro =
  OsName :: string
  OsVersion :: string

text \<open>
  Modelled from the spec: \<open>types.Cve\<close>, whose declaration is missing: a
  known-vulnerability record, here by its identifier.
\<close>

datatype Cve = Cve string

text \<open>
  Modelled from the spec: the \<open>Error\<close> field of \<open>types.IndexResult\<close>, which \<open>index.go\<close>
  never reads ("IndexResult{Packages, Distro, Error}"; "an engine failure is carried
  as an error inside its ScanResult"). \<open>Packages\<close> and \<open>Distro\<close> are the fields that
  lines 112, 113 and 151 read.
\<close>

record IndexResult =
  Packages :: "Package list"
  ir_Distro :: Distro
  ir_Error :: "error option"

record Platform =
  Os :: string
  plat_Architecture :: string
  plat_Variant :: string

text \<open>
  \<open>Tags\<close> is a \<open>*[]string\<close> (line 168 stores \<open>&tag\<close>): \<open>None\<close> is the nil pointer,
  "unset". \<open>src_Manifest\<close> and \<open>src_Config\<close> hold the pointers \<open>m\<close> and \<open>c\<close>.
\<close>

record ImageSource =
  Name :: string
  src_Digest :: string
  src_Manifest :: "Manifest option"
  src_Config :: "ConfigFile option"
  RawManifest :: string
  RawConfig :: string
  Distro :: Distro
  Platform :: Platform
  src_Size :: int
  Tags :: "string list option"

record Source =
  Type :: string
  Image :: ImageSource

record Descriptor =
  desc_Name :: string
  Version :: string
  SbomVersion :: string

text \<open>
  \<open>Vulnerabilities\<close> is a slice (line 50 assigns \<open>*cves\<close> to it); \<open>None\<close> is the nil
  slice of a document that was never enriched.
\<close>

record Sbom =
  Artifacts :: "Package list"
  Source :: Source
  Descriptor :: Descriptor
  Vulnerabilities :: "Cve list option"

text \<open>\<open>ImageIndexResult\<close> (lines 38 to 43); the prefix \<open>out_\<close> keeps the names apart.\<close>

record ImageIndexResult =
  Input :: string
  out_Image :: "v1_Image option"
  out_Sbom :: "Sbom option"
  out_Error :: "error option"

section \<open>Collaborators\<close>

text \<open>
  What \<open>name.ParseReference\<close> returns, as far as lines 134 to 136 read it:
  \<open>ref.Context().String()\<close> and \<open>ref.Identifier()\<close>.
\<close>

record Reference =
  ref_Context :: string
  ref_Identifier :: string

record BuildInfo =
  build_Version :: string
  build_SbomVersion :: string

datatype APIClient = APIClient

text \<open>
  The functions \<open>index.go\<close> calls and does not define are parameters of the model,
  one field each, so every theorem holds for whatever they compute:
  \<^item> \<open>FromBuild\<close>: \<open>internal.FromBuild()\<close>;
  \<^item> \<open>filepath_Join\<close>: \<open>filepath.Join\<close> of two elements;
  \<^item> \<open>json_Unmarshal\<close>, \<open>json_MarshalIndent\<close>: \<open>encoding/json\<close> at type \<open>types.Sbom\<close>
    (the struct tags are in the missing package), the second with the indent of
    line 171;
  \<^item> \<open>base64_EncodeToString\<close>: \<open>base64.StdEncoding.EncodeToString\<close>;
  \<^item> \<open>trivySbom\<close>, \<open>syftSbom\<close>: the two engines, each by the \<open>IndexResult\<close> it sends on
    its channel;
  \<^item> \<open>NormalizePackages\<close>, \<open>MergePackages\<close>: of package \<open>types\<close>. The first returns a
    Go pair, kept as a pair because line 112 stores the list whatever the error is;
  \<^item> \<open>ParseReference\<close>: \<open>name.ParseReference\<close> of go-containerregistry;
  \<^item> \<open>SaveImage\<close>, \<open>ReadImage\<close>: of package \<open>registry\<close>; \<open>Inl\<close> is a non-nil error;
  \<^item> \<open>QueryCves\<close>: \<open>query.QueryCves(sbom, "", "", "")\<close> as the pair it returns, the
    first component \<open>None\<close> for a nil \<open>*[]types.Cve\<close>.
  A collaborator is taken to return; one that panics or never answers is not
  modelled.
\<close>

record deps =
  FromBuild :: BuildInfo
  filepath_Join :: "string \<Rightarrow> string \<Rightarrow> string"
  json_Unmarshal :: "bytes \<Rightarrow> error + Sbom"
  json_MarshalIndent :: "Sbom \<Rightarrow> error + bytes"
  base64_EncodeToString :: "bytes \<Rightarrow> string"
  trivySbom :: "string \<Rightarrow> LayerMapping \<Rightarrow> IndexResult"
  syftSbom :: "string \<Rightarrow> LayerMapping \<Rightarrow> IndexResult"
  NormalizePackages :: "Package list \<Rightarrow> Package list \<times> error option"
  MergePackages :: "IndexResult \<Rightarrow> IndexResult \<Rightarrow> Package list"
  ParseReference :: "string \<Rightarrow> error + Reference"
  SaveImage :: "string \<Rightarrow> APIClient \<Rightarrow> error + (v1_Image \<times> string)"
  ReadImage :: "string \<Rightarrow> error + v1_Image"
  QueryCves :: "Sbom option \<Rightarrow> Cve list option \<times> error option"

section \<open>The process environment and the file system\<close>

text \<open>
  The state \<open>indexImage\<close> reads and writes: the environment variables, the files (a
  path holds no file, something that cannot be read, or a regular file with its
  bytes), the paths where a write fails, and a trace of the effects the pipeline
  started, in program order.
\<close>

datatype fnode = Missing | Unreadable | Regular bytes

datatype event = RunTrivy string | RunSyft string | WriteFile string

record world =
  environ :: "string \<rightharpoonup> string"
  files :: "string \<Rightarrow> fnode"
  unwritable :: "string \<Rightarrow> bool"
  trace :: "event list"

text \<open>
  The calls into package \<open>os\<close>: \<open>os.LookupEnv\<close> (\<open>Some\<close> when the variable is set,
  also to the empty string), \<open>os.Stat\<close> by its error (line 84 drops the \<open>FileInfo\<close>),
  \<open>os.IsNotExist\<close>, \<open>os.ReadFile\<close>, and \<open>os.WriteFile\<close> with its error and the new
  state. A write that fails leaves the file as it was.
\<close>

definition os_LookupEnv :: "world \<Rightarrow> string \<Rightarrow> string option" where
  "os_LookupEnv w key = environ w key"

definition os_Stat :: "world \<Rightarrow> string \<Rightarrow> error option" where
  "os_Stat w p = (case files w p of Missing \<Rightarrow> Some ErrNotExist | _ \<Rightarrow> None)"

definition os_IsNotExist :: "error option \<Rightarrow> bool" where
  "os_IsNotExist err = (err = Some ErrNotExist)"

definition os_ReadFile :: "world \<Rightarrow> string \<Rightarrow> error + bytes" where
  "os_ReadFile w p =
     (case files w p of
        Missing \<Rightarrow> Inl ErrNotExist
      | Unreadable \<Rightarrow> Inl ErrPermission
      | Regular b \<Rightarrow> Inr b)"

definition os_WriteFile :: "world \<Rightarrow> string \<Rightarrow> bytes \<Rightarrow> error option \<times> world" where
  "os_WriteFile w p b =
     (if unwritable w p then (Some ErrPermission, w\<lparr>trace := trace w @ [WriteFile p]\<rparr>)
      else (None, w\<lparr>files := (files w)(p := Regular b), trace := trace w @ [WriteFile p]\<rparr>))"

section \<open>The per-image pipeline\<close>

text \<open>Line 82: where the document of an extracted image is kept.\<close>

definition sbomPath :: "deps \<Rightarrow> string \<Rightarrow> string" where
  "sbomPath d path = filepath_Join d path ''sbom.json''"

text \<open>
  Lines 83 to 97: the persisted document, when \<open>indexImage\<close> returns it. \<open>Some sbom\<close>
  is the \<open>return &sbom, &img, nil\<close> of line 92; \<open>None\<close> is falling through to line 99.
\<close>

definition cachedSbom :: "deps \<Rightarrow> world \<Rightarrow> string \<Rightarrow> Sbom option" where
  "cachedSbom d w p =
     (case os_LookupEnv w ''ATOMIST_NO_CACHE'' of
        Some _ \<Rightarrow> None
      | None \<Rightarrow>
          if os_IsNotExist (os_Stat w p) then None
          else
            (case os_ReadFile w p of
               Inl err \<Rightarrow> None
             | Inr b \<Rightarrow>
                 (case json_Unmarshal d b of
                    Inl err \<Rightarrow> None
                  | Inr sbom \<Rightarrow>
                      if SbomVersion (Descriptor sbom) = build_SbomVersion (FromBuild d) \<and>
                         Version (Descriptor sbom) = build_Version (FromBuild d)
                      then Some sbom
                      else None)))"

text \<open>
  Lines 103 to 109: both engines are started on the same path and mapping, and both
  results are received, trivy's first.
\<close>

definition runEngines :: "deps \<Rightarrow> world \<Rightarrow> string \<Rightarrow> LayerMapping \<Rightarrow> (IndexResult \<times> IndexResult) \<times> world" where
  "runEngines d w path lm =
     ((trivySbom d path lm, syftSbom d path lm),
      w\<lparr>trace := trace w @ [RunTrivy path, RunSyft path]\<rparr>)"

text \<open>
  Lines 111 to 113. Both calls assign the one variable \<open>err\<close>; the value tested on
  line 114 is what the second call left in it.
\<close>

definition normalizeResults :: "deps \<Rightarrow> IndexResult \<Rightarrow> IndexResult \<Rightarrow> IndexResult \<times> IndexResult \<times> error option" where
  "normalizeResults d trivyResult syftResult =
     (let (packages, err) = NormalizePackages d (Packages trivyResult);
          trivyResult = trivyResult\<lparr>Packages := packages\<rparr>;
          (packages, err) = NormalizePackages d (Packages syftResult);
          syftResult = syftResult\<lparr>Packages := packages\<rparr>
      in (trivyResult, syftResult, err))"

text \<open>
  Lines 128 to 138: the name and the tag slice that go into the document, or the
  error of line 132. The nil slice \<open>tag\<close> of line 128 is the empty list.
\<close>

definition parseName :: "deps \<Rightarrow> string \<Rightarrow> error + (string \<times> string list)" where
  "parseName d imageName =
     (if imageName \<noteq> [] then
        (case ParseReference d imageName of
           Inl err \<Rightarrow> Inl (Wrap err (''failed to parse reference: '' @ imageName))
         | Inr ref \<Rightarrow>
             Inr (ref_Context ref,
                  if \<not> strings_HasPrefix (ref_Identifier ref) ''sha256:''
                  then [ref_Identifier ref] else []))
      else Inr (imageName, []))"

text \<open>
  Lines 140 to 169: the document. \<open>c.OS\<close> and \<open>m.Config.Size\<close> dereference the
  pointers of lines 124 and 125.
\<close>

definition assemble :: "deps \<Rightarrow> v1_Image \<Rightarrow> Package list \<Rightarrow> IndexResult \<Rightarrow> string \<Rightarrow> string list \<Rightarrow> panic + Sbom" where
  "assemble d img packages syftResult imageName tag =
     (case img_ConfigFile img of
        None \<Rightarrow> Inl NilPointerDereference
      | Some c \<Rightarrow>
          (case img_Manifest img of
             None \<Rightarrow> Inl NilPointerDereference
           | Some m \<Rightarrow>
               (let sbom =
                  \<lparr>Artifacts = packages,
                   Source =
                     \<lparr>Type = ''image'',
                      Image =
                        \<lparr>Name = imageName,
                         src_Digest = Hash_String (img_Digest img),
                         src_Manifest = Some m,
                         src_Config = Some c,
                         RawManifest = base64_EncodeToString d (img_RawManifest img),
                         RawConfig = base64_EncodeToString d (img_RawConfigFile img),
                         Distro = ir_Distro syftResult,
                         Platform =
                           \<lparr>Os = OS c, plat_Architecture = Architecture c,
                            plat_Variant = Variant c\<rparr>,
                         src_Size = Size (Config m),
                         Tags = None\<rparr>\<rparr>,
                   Descriptor =
                     \<lparr>desc_Name = ''docker index'',
                      Version = build_Version (FromBuild d),
                      SbomVersion = build_SbomVersion (FromBuild d)\<rparr>,
                   Vulnerabilities = None\<rparr>
                in Inr (if length tag > 0
                        then sbom\<lparr>Source := (Source sbom)\<lparr>Image := (Image (Source sbom))\<lparr>Tags := Some tag\<rparr>\<rparr>\<rparr>
                        else sbom))))"

text \<open>Lines 171 to 174: the write is skipped on a marshalling error, and its own error is dropped.\<close>

definition persist :: "deps \<Rightarrow> world \<Rightarrow> string \<Rightarrow> Sbom \<Rightarrow> world" where
  "persist d w p sbom =
     (case json_MarshalIndent d sbom of
        Inl err \<Rightarrow> w
      | Inr js \<Rightarrow> snd (os_WriteFile w p js))"

text \<open>
  What the three functions return: \<open>(*types.Sbom, *v1.Image, error)\<close>, each \<open>None\<close> when
  nil.
\<close>

type_synonym indexed = "Sbom option \<times> v1_Image option \<times> error option"

text \<open>
  \<open>indexImage\<close> (lines 80 to 177). \<open>Inl\<close> is a panic, \<open>Inr\<close> the return with the new
  state. The calls to the logger are left out; they decide nothing.
\<close>

definition indexImage :: "deps \<Rightarrow> world \<Rightarrow> v1_Image \<Rightarrow> string \<Rightarrow> string \<Rightarrow> panic + (indexed \<times> world)" where
  "indexImage d w img imageName path =
     (case cachedSbom d w (sbomPath d path) of
        Some sbom \<Rightarrow> Inr ((Some sbom, Some img, None), w)
      | None \<Rightarrow>
          (case createLayerMapping img of
             Inl p \<Rightarrow> Inl p
           | Inr lm \<Rightarrow>
               (let ((trivyResult, syftResult), w1) = runEngines d w path lm;
                    (trivyResult, syftResult, err) = normalizeResults d trivyResult syftResult
                in case err of
                     Some e \<Rightarrow>
                       Inr ((None, None,
                             Some (Wrap e (''failed to normalize packagess: '' @ imageName))), w1)
                   | None \<Rightarrow>
                       (let packages = MergePackages d syftResult trivyResult in
                        case parseName d imageName of
                          Inl e \<Rightarrow> Inr ((None, None, Some e), w1)
                        | Inr (imageName', tag) \<Rightarrow>
                            (case assemble d img packages syftResult imageName' tag of
                               Inl p \<Rightarrow> Inl p
                             | Inr sbom \<Rightarrow>
                                 Inr ((Some sbom, Some img, None),
                                      persist d w1 (sbomPath d path) sbom))))))"

text \<open>
  \<open>IndexPath\<close> (lines 60 to 68) and \<open>IndexImage\<close> (lines 70 to 78). The source's
  parameter \<open>image\<close> is written \<open>input\<close>, \<open>image\<close> being a constant of HOL.
\<close>

definition IndexPath :: "deps \<Rightarrow> world \<Rightarrow> string \<Rightarrow> string \<Rightarrow> panic + (indexed \<times> world)" where
  "IndexPath d w path name =
     (case ReadImage d path of
        Inl err \<Rightarrow> Inr ((None, None, Some (Wrap err ''failed to read image'')), w)
      | Inr img \<Rightarrow> indexImage d w img name path)"

definition IndexImage :: "deps \<Rightarrow> world \<Rightarrow> string \<Rightarrow> APIClient \<Rightarrow> panic + (indexed \<times> world)" where
  "IndexImage d w input client =
     (case SaveImage d input client of
        Inl err \<Rightarrow> Inr ((None, None, Some (Wrap err ''failed to download image'')), w)
      | Inr (img, path) \<Rightarrow> indexImage d w img input path)"

section \<open>One worker of the multi-image indexer\<close>

text \<open>
  \<open>indexImageAsync\<close> (lines 45 to 58), by the record it sends on \<open>resultChan\<close>; a panic
  sends none. The wait group and the channel itself are left out. Line 48
  declares \<open>cves\<close> and assigns \<open>err\<close> again, so the \<open>err\<close> of lines 49 and 56 is the one
  \<open>QueryCves\<close> returned. Line 50 dereferences both \<open>sbom\<close> and \<open>cves\<close>.
\<close>

definition indexImageAsync :: "deps \<Rightarrow> world \<Rightarrow> string \<Rightarrow> APIClient \<Rightarrow> panic + (ImageIndexResult \<times> world)" where
  "indexImageAsync d w input client =
     (case IndexImage d w input client of
        Inl p \<Rightarrow> Inl p
      | Inr ((sbom, img, err), w') \<Rightarrow>
          (let (cves, err) = QueryCves d sbom in
           if err = None then
             (case (sbom, cves) of
                (Some s, Some vs) \<Rightarrow>
                  Inr (\<lparr>Input = input, out_Image = img,
                        out_Sbom = Some (s\<lparr>Vulnerabilities := Some vs\<rparr>), out_Error = err\<rparr>, w')
              | _ \<Rightarrow> Inl NilPointerDereference)
           else
             Inr (\<lparr>Input = input, out_Image = img, out_Sbom = sbom, out_Error = err\<rparr>, w')))"

section \<open>The persisted document as JSON\<close>

text \<open>
  Modelled from the spec: the encoding of \<open>types.Sbom\<close> that lines 90 and 171 ask of
  \<open>encoding/json\<close>. The struct declarations of package \<open>types\<close>, with their field
  tags, are missing, so the encoding is written from the spec's description of the
  cache file: "a JSON document at \<open><extracted-image-path>/sbom.json\<close>, human-readable
  (indented), containing a full Sbom", with the "Document schema (Sbom JSON)" of its
  section 6. The indent is the two spaces of line 171. The encoding is a printer and
  a parser for each type, built from the same few combinators; the parser reads the
  text character by character and knows nothing of the printer.
\<close>

subsection \<open>Characters, white space and tokens\<close>

text \<open>
  Modelled from the spec: the three bytes that cannot stand in a string literal of
  this theory: the double quote, the backslash and the line feed.
\<close>

definition dquote :: char where "dquote = CHR 0x22"

definition bslash :: char where "bslash = CHR 0x5C"

definition lf :: char where "lf = CHR 0x0A"

text \<open>
  Modelled from the spec: JSON white space (space, line feed, tab, carriage return),
  which a reader skips before every token; the line break of an indented document,
  followed by two spaces for each level of nesting; and reading a given token.
\<close>

definition is_space :: "char \<Rightarrow> bool" where
  "is_space c = (c = CHR '' '' \<or> c = lf \<or> c = CHR 0x09 \<or> c = CHR 0x0D)"

definition skip_ws :: "string \<Rightarrow> string" where
  "skip_ws s = dropWhile is_space s"

definition newline :: "nat \<Rightarrow> string" where
  "newline n = lf # replicate (2 * n) CHR '' ''"

definition token :: "string \<Rightarrow> string \<Rightarrow> string option" where
  "token t s =
     (let r = skip_ws s in if take (length t) r = t then Some (drop (length t) r) else None)"

subsection \<open>Strings\<close>

text \<open>
  Modelled from the spec: a JSON string literal. The printer escapes the quote and
  the backslash, writes line feed, carriage return and tab as \<open>\n\<close>, \<open>\r\<close> and \<open>\t\<close>,
  and any other byte below \<open>0x20\<close> and \<open><\<close>, \<open>>\<close>, \<open>&\<close> as \<open>\u00XX\<close>, as \<open>encoding/json\<close>
  does; every other byte is written as it is (a Go string is taken to hold valid
  UTF-8, which \<open>encoding/json\<close> leaves alone). The reader accepts all the
  one-letter escapes of JSON and \<open>\u00XX\<close>, and refuses a raw control byte.
\<close>

definition hex_digit :: "nat \<Rightarrow> char" where
  "hex_digit k = (if k < 10 then char_of (48 + k) else char_of (87 + k))"

definition hex_value :: "char \<Rightarrow> nat option" where
  "hex_value c =
     (let n = (of_char c :: nat) in
      if 48 \<le> n \<and> n < 58 then Some (n - 48)
      else if 97 \<le> n \<and> n < 103 then Some (n - 87)
      else if 65 \<le> n \<and> n < 71 then Some (n - 55)
      else None)"

definition escape :: "char \<Rightarrow> string" where
  "escape c =
     (if c = dquote then [bslash, dquote]
      else if c = bslash then [bslash, bslash]
      else if c = lf then [bslash, CHR ''n'']
      else if c = CHR 0x0D then [bslash, CHR ''r'']
      else if c = CHR 0x09 then [bslash, CHR ''t'']
      else if (of_char c :: nat) < 32 \<or> c = CHR ''<'' \<or> c = CHR ''>'' \<or> c = CHR ''&''
      then [bslash, CHR ''u'', CHR ''0'', CHR ''0'',
            hex_digit ((of_char c :: nat) div 16), hex_digit ((of_char c :: nat) mod 16)]
      else [c])"

definition quote :: "string \<Rightarrow> string" where
  "quote s = dquote # concat (map escape s) @ [dquote]"

definition unescape :: "char \<Rightarrow> char option" where
  "unescape e =
     (if e = dquote then Some dquote
      else if e = bslash then Some bslash
      else if e = CHR ''/'' then Some CHR ''/''
      else if e = CHR ''n'' then Some lf
      else if e = CHR ''t'' then Some (CHR 0x09)
      else if e = CHR ''r'' then Some (CHR 0x0D)
      else if e = CHR ''b'' then Some (CHR 0x08)
      else if e = CHR ''f'' then Some (CHR 0x0C)
      else None)"

definition read_hex4 :: "string \<Rightarrow> (char \<times> string) option" where
  "read_hex4 s =
     (case s of
        a # b # h # l # r \<Rightarrow>
          (case (hex_value h, hex_value l) of
             (Some x, Some y) \<Rightarrow>
               if a = CHR ''0'' \<and> b = CHR ''0'' then Some (char_of (16 * x + y), r) else None
           | _ \<Rightarrow> None)
      | _ \<Rightarrow> None)"

definition read_char :: "string \<Rightarrow> (char \<times> string) option" where
  "read_char s =
     (case s of
        [] \<Rightarrow> None
      | c # r \<Rightarrow>
          if c = bslash then
            (case r of
               [] \<Rightarrow> None
             | e # r1 \<Rightarrow>
                 if e = CHR ''u'' then read_hex4 r1
                 else (case unescape e of None \<Rightarrow> None | Some c' \<Rightarrow> Some (c', r1)))
          else if (of_char c :: nat) < 32 then None
          else Some (c, r))"

text \<open>
  Modelled from the spec: reading a string literal after its opening quote, up to
  the closing quote. Each step consumes at least one byte, so the length of the
  input is enough fuel.
\<close>

fun unquote_fuel :: "nat \<Rightarrow> string \<Rightarrow> (string \<times> string) option" where
  "unquote_fuel 0 s = None"
| "unquote_fuel (Suc f) s =
     (case s of
        [] \<Rightarrow> None
      | c # r \<Rightarrow>
          if c = dquote then Some ([], r)
          else
            (case read_char s of
               None \<Rightarrow> None
             | Some (x, t) \<Rightarrow>
                 (case unquote_fuel f t of
                    None \<Rightarrow> None
                  | Some (xs, u) \<Rightarrow> Some (x # xs, u))))"

definition unquote :: "string \<Rightarrow> (string \<times> string) option" where
  "unquote s = unquote_fuel (length s) s"

subsection \<open>Numbers\<close>

text \<open>
  Modelled from the spec: a JSON integer in decimal, as \<open>Size\<close> is written: the digits
  of a natural number, most significant first, and a minus sign before those of a
  negative number.
\<close>

definition is_digit :: "char \<Rightarrow> bool" where
  "is_digit c = (48 \<le> (of_char c :: nat) \<and> (of_char c :: nat) < 58)"

definition digit :: "nat \<Rightarrow> char" where
  "digit k = char_of (48 + k)"

definition digit_value :: "char \<Rightarrow> nat" where
  "digit_value c = of_char c - 48"

function show_nat :: "nat \<Rightarrow> string" where
  "show_nat n = (if n < 10 then [digit n] else show_nat (n div 10) @ [digit (n mod 10)])"
  by pat_completeness auto
termination
  by (relation "measure id") auto

declare show_nat.simps [simp del]

definition read_nat :: "string \<Rightarrow> nat" where
  "read_nat ds = foldl (\<lambda>a c. 10 * a + digit_value c) 0 ds"

definition show_int :: "int \<Rightarrow> string" where
  "show_int i = (if i < 0 then CHR ''-'' # show_nat (nat (- i)) else show_nat (nat i))"

subsection \<open>Printers and parsers of JSON values\<close>

text \<open>
  Modelled from the spec: a printer writes a value at a level of nesting; a parser
  reads a value from the front of a text and returns it with what follows, or fails.
\<close>

type_synonym 'a printer = "nat \<Rightarrow> 'a \<Rightarrow> string"

type_synonym 'a parser = "string \<Rightarrow> ('a \<times> string) option"

text \<open>Modelled from the spec: strings and integers as JSON values.\<close>

definition string_pr :: "string printer" where
  "string_pr n s = quote s"

definition string_pa :: "string parser" where
  "string_pa s =
     (case skip_ws s of
        [] \<Rightarrow> None
      | c # r \<Rightarrow> if c = dquote then unquote r else None)"

definition int_pr :: "int printer" where
  "int_pr n i = show_int i"

definition int_pa :: "int parser" where
  "int_pa s =
     (case skip_ws s of
        [] \<Rightarrow> None
      | c # r \<Rightarrow>
          if c = CHR ''-'' then
            (if takeWhile is_digit r = [] then None
             else Some (- int (read_nat (takeWhile is_digit r)), dropWhile is_digit r))
          else
            (if takeWhile is_digit (c # r) = [] then None
             else Some (int (read_nat (takeWhile is_digit (c # r))), dropWhile is_digit (c # r))))"

text \<open>
  Modelled from the spec: a Go pointer as a JSON value: \<open>null\<close> for the nil pointer,
  the value it points to otherwise.
\<close>

definition null_or_pr :: "'a printer \<Rightarrow> 'a option printer" where
  "null_or_pr p n v = (case v of None \<Rightarrow> ''null'' | Some x \<Rightarrow> p n x)"

definition null_or_pa :: "'a parser \<Rightarrow> 'a option parser" where
  "null_or_pa p s =
     (case token ''null'' s of
        Some r \<Rightarrow> Some (None, r)
      | None \<Rightarrow> (case p s of None \<Rightarrow> None | Some (x, r) \<Rightarrow> Some (Some x, r)))"

text \<open>
  Modelled from the spec: a JSON array, indented: \<open>[]\<close> when empty, otherwise one
  element on each line, separated by commas, and the closing bracket on a line of
  its own. The reader takes elements as long as a comma follows; the length of the
  input is enough fuel.
\<close>

fun elements_pr :: "'a printer \<Rightarrow> nat \<Rightarrow> 'a list \<Rightarrow> string" where
  "elements_pr p n [] = []"
| "elements_pr p n (x # xs) =
     newline n @ p n x @ (if xs = [] then [] else CHR '','' # elements_pr p n xs)"

definition array_pr :: "'a printer \<Rightarrow> 'a list printer" where
  "array_pr p n xs =
     (if xs = [] then ''[]'' else CHR ''['' # elements_pr p (Suc n) xs @ newline n @ '']'')"

fun elements_pa :: "nat \<Rightarrow> 'a parser \<Rightarrow> 'a list parser" where
  "elements_pa 0 p s = None"
| "elements_pa (Suc f) p s =
     (case p s of
        None \<Rightarrow> None
      | Some (x, r) \<Rightarrow>
          (case token '','' r of
             None \<Rightarrow> Some ([x], r)
           | Some r1 \<Rightarrow>
               (case elements_pa f p r1 of
                  None \<Rightarrow> None
                | Some (xs, r2) \<Rightarrow> Some (x # xs, r2))))"

definition array_pa :: "'a parser \<Rightarrow> 'a list parser" where
  "array_pa p s =
     (case token ''['' s of
        None \<Rightarrow> None
      | Some r \<Rightarrow>
          (case token '']'' r of
             Some r1 \<Rightarrow> Some ([], r1)
           | None \<Rightarrow>
               (case elements_pa (length r) p r of
                  None \<Rightarrow> None
                | Some (xs, r1) \<Rightarrow>
                    (case token '']'' r1 of
                       None \<Rightarrow> None
                     | Some r2 \<Rightarrow> Some (xs, r2)))))"

text \<open>
  Modelled from the spec: a JSON object, indented: each member is a key, a colon, a
  space and a value, on a line of its own; members are separated by commas and
  enclosed in braces. A reader takes the members in the order the schema lists them.
\<close>

definition member_pr :: "string \<Rightarrow> 'a printer \<Rightarrow> 'a printer" where
  "member_pr k p n v = newline n @ quote k @ '': '' @ p n v"

definition member_pa :: "string \<Rightarrow> 'a parser \<Rightarrow> 'a parser" where
  "member_pa k p s =
     (case token (quote k) s of
        None \<Rightarrow> None
      | Some r \<Rightarrow> (case token '':'' r of None \<Rightarrow> None | Some r1 \<Rightarrow> p r1))"

definition and_pr :: "'a printer \<Rightarrow> 'b printer \<Rightarrow> ('a \<times> 'b) printer" where
  "and_pr p q n ab = p n (fst ab) @ CHR '','' # q n (snd ab)"

definition and_pa :: "'a parser \<Rightarrow> 'b parser \<Rightarrow> ('a \<times> 'b) parser" where
  "and_pa p q s =
     (case p s of
        None \<Rightarrow> None
      | Some (a, r) \<Rightarrow>
          (case token '','' r of
             None \<Rightarrow> None
           | Some r1 \<Rightarrow> (case q r1 of None \<Rightarrow> None | Some (b, r2) \<Rightarrow> Some ((a, b), r2))))"

definition object_pr :: "'a printer \<Rightarrow> 'a printer" where
  "object_pr p n x = CHR ''{'' # p (Suc n) x @ newline n @ ''}''"

definition object_pa :: "'a parser \<Rightarrow> 'a parser" where
  "object_pa p s =
     (case token ''{'' s of
        None \<Rightarrow> None
      | Some r \<Rightarrow>
          (case p r of
             None \<Rightarrow> None
           | Some (x, r1) \<Rightarrow> (case token ''}'' r1 of None \<Rightarrow> None | Some r2 \<Rightarrow> Some (x, r2))))"

text \<open>
  Modelled from the spec: an optional last member ("optional \<open>Tags\<close>", "optional
  \<open>Vulnerabilities\<close>"): left out of the object when unset, and read only when a comma
  follows the members before it.
\<close>

definition with_optional_pr :: "'a printer \<Rightarrow> string \<Rightarrow> 'b printer \<Rightarrow> ('a \<times> 'b option) printer" where
  "with_optional_pr p k q n av =
     p n (fst av) @ (case snd av of None \<Rightarrow> [] | Some x \<Rightarrow> CHR '','' # member_pr k q n x)"

definition with_optional_pa :: "'a parser \<Rightarrow> string \<Rightarrow> 'b parser \<Rightarrow> ('a \<times> 'b option) parser" where
  "with_optional_pa p k q s =
     (case p s of
        None \<Rightarrow> None
      | Some (a, r) \<Rightarrow>
          (case token '','' r of
             None \<Rightarrow> Some ((a, None), r)
           | Some r1 \<Rightarrow>
               (case member_pa k q r1 of
                  None \<Rightarrow> None
                | Some (x, r2) \<Rightarrow> Some ((a, Some x), r2))))"

text \<open>
  Modelled from the spec: a Go struct is printed through the tuple of its fields and
  built again from the tuple read.
\<close>

definition as_pr :: "('b \<Rightarrow> 'a) \<Rightarrow> 'a printer \<Rightarrow> 'b printer" where
  "as_pr f p n x = p n (f x)"

definition as_pa :: "('a \<Rightarrow> 'b) \<Rightarrow> 'a parser \<Rightarrow> 'b parser" where
  "as_pa g p s = (case p s of None \<Rightarrow> None | Some (y, r) \<Rightarrow> Some (g y, r))"

text \<open>
  What it means for a parser to invert a printer: whatever white space comes before
  the printed value, and whatever follows it in a document (the end of the text, a
  comma, or a line break), the parser returns the value and stops right after it.
  \<open>opens\<close> says that a printed value starts with a character that is neither white
  space, nor the closing bracket, nor the first letter of \<open>null\<close>;
  \<open>inverts_in_object\<close> is \<open>inverts\<close> for the members of an object, which are always
  followed by the line of the closing brace.
\<close>

definition follows :: "string \<Rightarrow> bool" where
  "follows rest = (case rest of [] \<Rightarrow> True | c # r \<Rightarrow> c = CHR '','' \<or> c = lf)"

definition opens :: "'a printer \<Rightarrow> bool" where
  "opens p = (\<forall>n x. \<exists>c r. p n x = c # r \<and> \<not> is_space c \<and> c \<noteq> CHR '']'' \<and> c \<noteq> CHR ''n'')"

definition inverts :: "'a printer \<Rightarrow> 'a parser \<Rightarrow> bool" where
  "inverts pr pa =
     (\<forall>n x ws rest. list_all is_space ws \<longrightarrow> follows rest \<longrightarrow>
        pa (ws @ pr n x @ rest) = Some (x, rest))"

definition inverts_in_object :: "'a printer \<Rightarrow> 'a parser \<Rightarrow> bool" where
  "inverts_in_object pr pa =
     (\<forall>n x ws m rest. list_all is_space ws \<longrightarrow>
        pa (ws @ pr n x @ newline m @ CHR ''}'' # rest) = Some (x, newline m @ CHR ''}'' # rest))"

subsection \<open>The document schema\<close>

text \<open>
  Modelled from the spec: a Package in JSON. The spec names its fields ("name,
  version, type/ecosystem, originating layer reference") and writes them in lower
  case (\<open>{name:"curl",version:"7.0",type:"deb"}\<close>).
\<close>

definition Package_pr :: "Package printer" where
  "Package_pr =
     as_pr (\<lambda>p. (pkg_Name p, pkg_Version p, pkg_Type p, pkg_Layer p))
       (object_pr
          (and_pr (member_pr ''name'' string_pr)
          (and_pr (member_pr ''version'' string_pr)
          (and_pr (member_pr ''type'' string_pr)
                  (member_pr ''layer'' string_pr)))))"

definition Package_pa :: "Package parser" where
  "Package_pa =
     as_pa (\<lambda>(n, v, t, l). \<lparr>pkg_Name = n, pkg_Version = v, pkg_Type = t, pkg_Layer = l\<rparr>)
       (object_pa
          (and_pa (member_pa ''name'' string_pa)
          (and_pa (member_pa ''version'' string_pa)
          (and_pa (member_pa ''type'' string_pa)
                  (member_pa ''layer'' string_pa)))))"

text \<open>Modelled from the spec: a vulnerability record in JSON, an object holding its identifier.\<close>

definition Cve_pr :: "Cve printer" where
  "Cve_pr = as_pr (\<lambda>c. case c of Cve s \<Rightarrow> s) (object_pr (member_pr ''id'' string_pr))"

definition Cve_pa :: "Cve parser" where
  "Cve_pa = as_pa Cve (object_pa (member_pa ''id'' string_pa))"

text \<open>
  Modelled from the spec: \<open>Distro\<close> ("name/version of the base OS") and
  "\<open>Platform\<close> {Os, Architecture, Variant}" in JSON.
\<close>

definition Distro_pr :: "Distro printer" where
  "Distro_pr =
     as_pr (\<lambda>x. (OsName x, OsVersion x))
       (object_pr (and_pr (member_pr ''OsName'' string_pr) (member_pr ''OsVersion'' string_pr)))"

definition Distro_pa :: "Distro parser" where
  "Distro_pa =
     as_pa (\<lambda>(n, v). \<lparr>OsName = n, OsVersion = v\<rparr>)
       (object_pa (and_pa (member_pa ''OsName'' string_pa) (member_pa ''OsVersion'' string_pa)))"

definition Platform_pr :: "Platform printer" where
  "Platform_pr =
     as_pr (\<lambda>x. (Os x, plat_Architecture x, plat_Variant x))
       (object_pr
          (and_pr (member_pr ''Os'' string_pr)
          (and_pr (member_pr ''Architecture'' string_pr)
                  (member_pr ''Variant'' string_pr))))"

definition Platform_pa :: "Platform parser" where
  "Platform_pa =
     as_pa (\<lambda>(os, a, v). \<lparr>Os = os, plat_Architecture = a, plat_Variant = v\<rparr>)
       (object_pa
          (and_pa (member_pa ''Os'' string_pa)
          (and_pa (member_pa ''Architecture'' string_pa)
                  (member_pa ''Variant'' string_pa))))"

text \<open>
  Modelled from the spec: the \<open>Manifest\<close> and \<open>Config\<close> members, which hold the image's
  \<open>v1.Manifest\<close> and \<open>v1.ConfigFile\<close>. The spec lists the two members and not what is
  inside; the fields kept in this theory are written under the keys
  \<open>go-containerregistry\<close> gives them, and a \<open>v1.Hash\<close> as an object of its two fields.
\<close>

definition Hash_pr :: "Hash printer" where
  "Hash_pr =
     as_pr (\<lambda>h. (Algorithm h, Hex h))
       (object_pr (and_pr (member_pr ''algorithm'' string_pr) (member_pr ''hex'' string_pr)))"

definition Hash_pa :: "Hash parser" where
  "Hash_pa =
     as_pa (\<lambda>(a, h). \<lparr>Algorithm = a, Hex = h\<rparr>)
       (object_pa (and_pa (member_pa ''algorithm'' string_pa) (member_pa ''hex'' string_pa)))"

definition RootFS_pr :: "RootFS printer" where
  "RootFS_pr = as_pr DiffIDs (object_pr (member_pr ''diff_ids'' (array_pr Hash_pr)))"

definition RootFS_pa :: "RootFS parser" where
  "RootFS_pa =
     as_pa (\<lambda>ds. \<lparr>DiffIDs = ds\<rparr>) (object_pa (member_pa ''diff_ids'' (array_pa Hash_pa)))"

definition ConfigFile_pr :: "ConfigFile printer" where
  "ConfigFile_pr =
     as_pr (\<lambda>c. (Architecture c, OS c, Variant c, RootFS c))
       (object_pr
          (and_pr (member_pr ''architecture'' string_pr)
          (and_pr (member_pr ''os'' string_pr)
          (and_pr (member_pr ''variant'' string_pr)
                  (member_pr ''rootfs'' RootFS_pr)))))"

definition ConfigFile_pa :: "ConfigFile parser" where
  "ConfigFile_pa =
     as_pa (\<lambda>(a, os, v, r). \<lparr>Architecture = a, OS = os, Variant = v, RootFS = r\<rparr>)
       (object_pa
          (and_pa (member_pa ''architecture'' string_pa)
          (and_pa (member_pa ''os'' string_pa)
          (and_pa (member_pa ''variant'' string_pa)
                  (member_pa ''rootfs'' RootFS_pa)))))"

definition v1_Descriptor_pr :: "v1_Descriptor printer" where
  "v1_Descriptor_pr =
     as_pr (\<lambda>x. (Size x, Digest x))
       (object_pr (and_pr (member_pr ''size'' int_pr) (member_pr ''digest'' Hash_pr)))"

definition v1_Descriptor_pa :: "v1_Descriptor parser" where
  "v1_Descriptor_pa =
     as_pa (\<lambda>(s, h). \<lparr>Size = s, Digest = h\<rparr>)
       (object_pa (and_pa (member_pa ''size'' int_pa) (member_pa ''digest'' Hash_pa)))"

definition Manifest_pr :: "Manifest printer" where
  "Manifest_pr =
     as_pr (\<lambda>m. (Config m, Layers m))
       (object_pr
          (and_pr (member_pr ''config'' v1_Descriptor_pr)
                  (member_pr ''layers'' (array_pr v1_Descriptor_pr))))"

definition Manifest_pa :: "Manifest parser" where
  "Manifest_pa =
     as_pa (\<lambda>(c, ls). \<lparr>Config = c, Layers = ls\<rparr>)
       (object_pa
          (and_pa (member_pa ''config'' v1_Descriptor_pa)
                  (member_pa ''layers'' (array_pa v1_Descriptor_pa))))"

text \<open>
  Modelled from the spec: "\<open>Source\<close> (\<open>Type\<close>, \<open>Image\<close>: \<open>Name\<close>, \<open>Digest\<close>, \<open>Manifest\<close>,
  \<open>Config\<close>, \<open>RawManifest\<close> (base64), \<open>RawConfig\<close> (base64), \<open>Distro\<close>, \<open>Platform\<close>
  {Os, Architecture, Variant}, \<open>Size\<close>, optional \<open>Tags\<close>)". \<open>Manifest\<close> and \<open>Config\<close> are
  pointers; \<open>Tags\<close> is left out when unset.
\<close>

definition ImageSource_pr :: "ImageSource printer" where
  "ImageSource_pr =
     as_pr (\<lambda>x. ((Name x, src_Digest x, src_Manifest x, src_Config x, RawManifest x,
                  RawConfig x, Distro x, Platform x, src_Size x), Tags x))
       (object_pr
          (with_optional_pr
             (and_pr (member_pr ''Name'' string_pr)
             (and_pr (member_pr ''Digest'' string_pr)
             (and_pr (member_pr ''Manifest'' (null_or_pr Manifest_pr))
             (and_pr (member_pr ''Config'' (null_or_pr ConfigFile_pr))
             (and_pr (member_pr ''RawManifest'' string_pr)
             (and_pr (member_pr ''RawConfig'' string_pr)
             (and_pr (member_pr ''Distro'' Distro_pr)
             (and_pr (member_pr ''Platform'' Platform_pr)
                     (member_pr ''Size'' int_pr)))))))))
             ''Tags'' (array_pr string_pr)))"

definition ImageSource_pa :: "ImageSource parser" where
  "ImageSource_pa =
     as_pa (\<lambda>((n, d, m, c, rm, rc, ds, p, s), t).
              \<lparr>Name = n, src_Digest = d, src_Manifest = m, src_Config = c, RawManifest = rm,
               RawConfig = rc, Distro = ds, Platform = p, src_Size = s, Tags = t\<rparr>)
       (object_pa
          (with_optional_pa
             (and_pa (member_pa ''Name'' string_pa)
             (and_pa (member_pa ''Digest'' string_pa)
             (and_pa (member_pa ''Manifest'' (null_or_pa Manifest_pa))
             (and_pa (member_pa ''Config'' (null_or_pa ConfigFile_pa))
             (and_pa (member_pa ''RawManifest'' string_pa)
             (and_pa (member_pa ''RawConfig'' string_pa)
             (and_pa (member_pa ''Distro'' Distro_pa)
             (and_pa (member_pa ''Platform'' Platform_pa)
                     (member_pa ''Size'' int_pa)))))))))
             ''Tags'' (array_pa string_pa)))"

definition Source_pr :: "Source printer" where
  "Source_pr =
     as_pr (\<lambda>x. (Type x, Image x))
       (object_pr (and_pr (member_pr ''Type'' string_pr) (member_pr ''Image'' ImageSource_pr)))"

definition Source_pa :: "Source parser" where
  "Source_pa =
     as_pa (\<lambda>(t, i). \<lparr>Type = t, Image = i\<rparr>)
       (object_pa (and_pa (member_pa ''Type'' string_pa) (member_pa ''Image'' ImageSource_pa)))"

text \<open>Modelled from the spec: "\<open>Descriptor\<close> (\<open>Name\<close>, \<open>Version\<close>, \<open>SbomVersion\<close>)".\<close>

definition Descriptor_pr :: "Descriptor printer" where
  "Descriptor_pr =
     as_pr (\<lambda>x. (desc_Name x, Version x, SbomVersion x))
       (object_pr
          (and_pr (member_pr ''Name'' string_pr)
          (and_pr (member_pr ''Version'' string_pr)
                  (member_pr ''SbomVersion'' string_pr))))"

definition Descriptor_pa :: "Descriptor parser" where
  "Descriptor_pa =
     as_pa (\<lambda>(n, v, s). \<lparr>desc_Name = n, Version = v, SbomVersion = s\<rparr>)
       (object_pa
          (and_pa (member_pa ''Name'' string_pa)
          (and_pa (member_pa ''Version'' string_pa)
                  (member_pa ''SbomVersion'' string_pa))))"

text \<open>
  Modelled from the spec: the document: "top-level keys \<open>Artifacts\<close> (array of
  Package), \<open>Source\<close>, \<open>Descriptor\<close>, optional \<open>Vulnerabilities\<close>".
\<close>

definition Sbom_pr :: "Sbom printer" where
  "Sbom_pr =
     as_pr (\<lambda>x. ((Artifacts x, Source x, Descriptor x), Vulnerabilities x))
       (object_pr
          (with_optional_pr
             (and_pr (member_pr ''Artifacts'' (array_pr Package_pr))
             (and_pr (member_pr ''Source'' Source_pr)
                     (member_pr ''Descriptor'' Descriptor_pr)))
             ''Vulnerabilities'' (array_pr Cve_pr)))"

definition Sbom_pa :: "Sbom parser" where
  "Sbom_pa =
     as_pa (\<lambda>((a, s, d), v).
              \<lparr>Artifacts = a, Source = s, Descriptor = d, Vulnerabilities = v\<rparr>)
       (object_pa
          (with_optional_pa
             (and_pa (member_pa ''Artifacts'' (array_pa Package_pa))
             (and_pa (member_pa ''Source'' Source_pa)
                     (member_pa ''Descriptor'' Descriptor_pa)))
             ''Vulnerabilities'' (array_pa Cve_pa)))"

text \<open>
  Modelled from the spec: \<open>json.MarshalIndent(sbom, "", "  ")\<close> and \<open>json.Unmarshal\<close> at
  type \<open>types.Sbom\<close>. Marshalling a document of these types does not fail; unmarshalling
  fails on a text that is not a document of the schema, or that goes on after it.
\<close>

definition marshalSbom :: "Sbom \<Rightarrow> error + bytes" where
  "marshalSbom sbom = Inr (Sbom_pr 0 sbom)"

definition unmarshalSbom :: "bytes \<Rightarrow> error + Sbom" where
  "unmarshalSbom b =
     (case Sbom_pa b of
        None \<Rightarrow> Inl (ErrorString ''invalid character'')
      | Some (sbom, rest) \<Rightarrow>
          if skip_ws rest = [] then Inr sbom
          else Inl (ErrorString ''invalid character after top-level value''))"

section \<open>Bidirectionality at an ordinal\<close>

text \<open>
  The two equations of the layer-mapping invariant at ordinal \<open>i\<close>, with every lookup
  required to find its key: \<open>ByDigest[DigestByOrdinal[i]] == DiffIdByOrdinal[i]\<close> and
  \<open>OrdinalByDiffId[DiffIdByOrdinal[i]] == i\<close>.
\<close>

definition bidirectionalAt :: "LayerMapping \<Rightarrow> nat \<Rightarrow> bool" where
  "bidirectionalAt lm i =
     (case (DigestByOrdinal lm i, DiffIdByOrdinal lm i) of
        (Some digest, Some diffId) \<Rightarrow> ByDigest lm digest = Some diffId \<and> OrdinalByDiffId lm diffId = Some i
      | _ \<Rightarrow> False)"

section \<open>Example inputs\<close>

text \<open>
  Concrete images, engine results, documents, collaborators and states at which the
  theorems are instantiated. Hashes are shortened to two hex digits.
\<close>

definition sha256 :: "string \<Rightarrow> Hash" where
  "sha256 h = \<lparr>Algorithm = ''sha256'', Hex = h\<rparr>"

definition exampleConfig :: "Hash list \<Rightarrow> ConfigFile" where
  "exampleConfig diffIds =
     \<lparr>Architecture = ''amd64'', OS = ''linux'', Variant = '''', RootFS = \<lparr>DiffIDs = diffIds\<rparr>\<rparr>"

definition exampleManifest :: "Hash list \<Rightarrow> Manifest" where
  "exampleManifest digests =
     \<lparr>Config = \<lparr>Size = 1469, Digest = sha256 ''c0''\<rparr>,
      Layers = map (\<lambda>h. \<lparr>Size = 2048, Digest = h\<rparr>) digests\<rparr>"

definition exampleImage :: "Hash list \<Rightarrow> Hash list \<Rightarrow> v1_Image" where
  "exampleImage diffIds digests =
     \<lparr>img_ConfigFile = Some (exampleConfig diffIds),
      img_Manifest = Some (exampleManifest digests),
      img_RawManifest = ''{manifest}'', img_RawConfigFile = ''{config}'',
      img_Digest = sha256 ''d0''\<rparr>"

text \<open>
  Three images: two distinct layers; one layer twice (the same diff ID and the same
  digest at ordinals 0 and 1), with the mapping the loop builds for it; and a config
  that lists one diff ID for a manifest of two layers.
\<close>

definition twoLayerImage :: v1_Image where
  "twoLayerImage = exampleImage [sha256 ''a1'', sha256 ''a2''] [sha256 ''b1'', sha256 ''b2'']"

definition repeatedLayerImage :: v1_Image where
  "repeatedLayerImage = exampleImage [sha256 ''a1'', sha256 ''a1''] [sha256 ''b1'', sha256 ''b1'']"

definition repeatedLayerMapping :: LayerMapping where
  "repeatedLayerMapping =
     \<lparr>ByDiffId = [''sha256:a1'' \<mapsto> ''sha256:b1''],
      ByDigest = [''sha256:b1'' \<mapsto> ''sha256:a1''],
      DiffIdByOrdinal = [0 \<mapsto> ''sha256:a1'', 1 \<mapsto> ''sha256:a1''],
      DigestByOrdinal = [0 \<mapsto> ''sha256:b1'', 1 \<mapsto> ''sha256:b1''],
      OrdinalByDiffId = [''sha256:a1'' \<mapsto> 1]\<rparr>"

definition shortConfigImage :: v1_Image where
  "shortConfigImage = exampleImage [sha256 ''a1''] [sha256 ''b1'', sha256 ''b2'']"

text \<open>
  Engine results: three packages; a package whose layer is none of the image's; a
  result that carries an error and no package.
\<close>

definition threePackages :: "Package list" where
  "threePackages =
     [\<lparr>pkg_Name = ''curl'', pkg_Version = ''7.0'', pkg_Type = ''deb'', pkg_Layer = ''sha256:a1''\<rparr>,
      \<lparr>pkg_Name = ''openssl'', pkg_Version = ''3.0.2'', pkg_Type = ''deb'', pkg_Layer = ''sha256:a1''\<rparr>,
      \<lparr>pkg_Name = ''zlib'', pkg_Version = ''1.2.11'', pkg_Type = ''deb'', pkg_Layer = ''sha256:a2''\<rparr>]"

definition unresolvedPackage :: Package where
  "unresolvedPackage =
     \<lparr>pkg_Name = ''busybox'', pkg_Version = ''1.36'', pkg_Type = ''apk'', pkg_Layer = ''sha256:ff''\<rparr>"

definition exampleDistro :: Distro where
  "exampleDistro = \<lparr>OsName = ''debian'', OsVersion = ''11''\<rparr>"

definition failedResult :: IndexResult where
  "failedResult =
     \<lparr>Packages = [], ir_Distro = \<lparr>OsName = '''', OsVersion = ''''\<rparr>,
      ir_Error = Some (ErrorString ''scan failed'')\<rparr>"

definition threePackageResult :: IndexResult where
  "threePackageResult = \<lparr>Packages = threePackages, ir_Distro = exampleDistro, ir_Error = None\<rparr>"

definition unresolvedResult :: IndexResult where
  "unresolvedResult = \<lparr>Packages = [unresolvedPackage], ir_Distro = exampleDistro, ir_Error = None\<rparr>"

text \<open>
  A persisted document of schema version \<open>v\<close>, and a JSON encoding that knows the
  documents of versions 6 and 5 by the bytes \<open>sbom-v6\<close> and \<open>sbom-v5\<close>.
\<close>

definition persistedDocument :: "string \<Rightarrow> Sbom" where
  "persistedDocument v =
     \<lparr>Artifacts = threePackages,
      Source =
        \<lparr>Type = ''image'',
         Image =
           \<lparr>Name = ''index.docker.io/repo/image'', src_Digest = ''sha256:d0'',
            src_Manifest = None, src_Config = None, RawManifest = '''', RawConfig = '''',
            Distro = exampleDistro,
            Platform = \<lparr>Os = ''linux'', plat_Architecture = ''amd64'', plat_Variant = ''''\<rparr>,
            src_Size = 1469, Tags = Some [''latest'']\<rparr>\<rparr>,
      Descriptor = \<lparr>desc_Name = ''docker index'', Version = ''0.0.35'', SbomVersion = v\<rparr>,
      Vulnerabilities = None\<rparr>"

definition exampleUnmarshal :: "bytes \<Rightarrow> error + Sbom" where
  "exampleUnmarshal b =
     (if b = ''sbom-v6'' then Inr (persistedDocument ''6'')
      else if b = ''sbom-v5'' then Inr (persistedDocument ''5'')
      else Inl (ErrorString ''invalid character''))"

definition exampleMarshalIndent :: "Sbom \<Rightarrow> error + bytes" where
  "exampleMarshalIndent sbom = Inr (''sbom-v'' @ SbomVersion (Descriptor sbom))"

text \<open>
  A normalizer that fails on the layer \<open>sha256:ff\<close> and returns every other list as it
  is; a merger that appends and drops repetitions; a reference parser that knows one
  tag reference and one digest reference and prints the repository with its registry;
  a vulnerability lookup that fails on the nil document.
\<close>

definition exampleNormalize :: "Package list \<Rightarrow> Package list \<times> error option" where
  "exampleNormalize ps =
     (if ''sha256:ff'' \<in> set (map pkg_Layer ps) then ([], Some (ErrorString ''layer not found''))
      else (ps, None))"

definition exampleMerge :: "IndexResult \<Rightarrow> IndexResult \<Rightarrow> Package list" where
  "exampleMerge a b = remdups (Packages a @ Packages b)"

definition digestReference :: string where
  "digestReference =
     ''repo/image@sha256:e3b0c44298fc1c149afbf4c8996fb92427ae41e4649b934ca495991b7852b855''"

definition exampleParseReference :: "string \<Rightarrow> error + Reference" where
  "exampleParseReference s =
     (if s = ''repo/image:latest''
      then Inr \<lparr>ref_Context = ''index.docker.io/repo/image'', ref_Identifier = ''latest''\<rparr>
      else if s = digestReference
      then Inr \<lparr>ref_Context = ''index.docker.io/repo/image'', ref_Identifier = drop 11 digestReference\<rparr>
      else Inl (ErrorString ''could not parse reference''))"

definition exampleQueryCves :: "Sbom option \<Rightarrow> Cve list option \<times> error option" where
  "exampleQueryCves sbom =
     (case sbom of
        None \<Rightarrow> (None, Some (ErrorString ''no document''))
      | Some s \<Rightarrow> (Some [Cve ''CVE-2022-0778''], None))"

text \<open>
  The example build: version 0.0.35, schema version 6, trivy failing and syft finding
  the three packages, every image but \<open>repo/missing:latest\<close> downloaded to
  \<open>/tmp/image\<close>.
\<close>

definition exampleDeps :: deps where
  "exampleDeps =
     \<lparr>FromBuild = \<lparr>build_Version = ''0.0.35'', build_SbomVersion = ''6''\<rparr>,
      filepath_Join = (\<lambda>dir file. dir @ ''/'' @ file),
      json_Unmarshal = exampleUnmarshal,
      json_MarshalIndent = exampleMarshalIndent,
      base64_EncodeToString = (\<lambda>b. ''base64:'' @ b),
      trivySbom = (\<lambda>path lm. failedResult),
      syftSbom = (\<lambda>path lm. threePackageResult),
      NormalizePackages = exampleNormalize,
      MergePackages = exampleMerge,
      ParseReference = exampleParseReference,
      SaveImage =
        (\<lambda>input client.
           if input = ''repo/missing:latest'' then Inl (ErrorString ''manifest unknown'')
           else Inr (twoLayerImage, ''/tmp/image'')),
      ReadImage = (\<lambda>path. Inr twoLayerImage),
      QueryCves = exampleQueryCves\<rparr>"

text \<open>
  A state with no environment variable and no file, and the same state with a
  \<open>sbom.json\<close> of the given bytes in \<open>/tmp/image\<close>.
\<close>

definition emptyWorld :: world where
  "emptyWorld =
     \<lparr>environ = Map.empty, files = (\<lambda>p. Missing), unwritable = (\<lambda>p. False), trace = []\<rparr>"

definition worldWith :: "bytes \<Rightarrow> world" where
  "worldWith b = emptyWorld\<lparr>files := (files emptyWorld)(''/tmp/image/sbom.json'' := Regular b)\<rparr>"

text \<open>
  The example collaborators with the JSON encoding above for \<open>encoding/json\<close>; the
  document that a run on \<open>twoLayerImage\<close>, named \<open>repo/image:latest\<close>, assembles with
  them; and the text of that document, line by line.
\<close>

definition jsonDeps :: deps where
  "jsonDeps = exampleDeps\<lparr>json_Unmarshal := unmarshalSbom, json_MarshalIndent := marshalSbom\<rparr>"

definition computedDocument :: Sbom where
  "computedDocument =
     \<lparr>Artifacts = threePackages,
      Source =
        \<lparr>Type = ''image'',
         Image =
           \<lparr>Name = ''index.docker.io/repo/image'', src_Digest = ''sha256:d0'',
            src_Manifest = Some (exampleManifest [sha256 ''b1'', sha256 ''b2'']),
            src_Config = Some (exampleConfig [sha256 ''a1'', sha256 ''a2'']),
            RawManifest = ''base64:{manifest}'', RawConfig = ''base64:{config}'',
            Distro = exampleDistro,
            Platform = \<lparr>Os = ''linux'', plat_Architecture = ''amd64'', plat_Variant = ''''\<rparr>,
            src_Size = 1469, Tags = Some [''latest'']\<rparr>\<rparr>,
      Descriptor = \<lparr>desc_Name = ''docker index'', Version = ''0.0.35'', SbomVersion = ''6''\<rparr>,
      Vulnerabilities = None\<rparr>"

definition joinLines :: "string list \<Rightarrow> string" where
  "joinLines ls = (case ls of [] \<Rightarrow> [] | l # r \<Rightarrow> l @ concat (map ((#) lf) r))"

definition computedJson :: bytes where
  \<open>computedJson = joinLines
     [
      ''{'',
      ''  "Artifacts": ['',
      ''    {'',
      ''      "name": "curl",'',
      ''      "version": "7.0",'',
      ''      "type": "deb",'',
      ''      "layer": "sha256:a1"'',
      ''    },'',
      ''    {'',
      ''      "name": "openssl",'',
      ''      "version": "3.0.2",'',
      ''      "type": "deb",'',
      ''      "layer": "sha256:a1"'',
      ''    },'',
      ''    {'',
      ''      "name": "zlib",'',
      ''      "version": "1.2.11",'',
      ''      "type": "deb",'',
      ''      "layer": "sha256:a2"'',
      ''    }'',
      ''  ],'',
      ''  "Source": {'',
      ''    "Type": "image",'',
      ''    "Image": {'',
      ''      "Name": "index.docker.io/repo/image",'',
      ''      "Digest": "sha256:d0",'',
      ''      "Manifest": {'',
      ''        "config": {'',
      ''          "size": 1469,'',
      ''          "digest": {'',
      ''            "algorithm": "sha256",'',
      ''            "hex": "c0"'',
      ''          }'',
      ''        },'',
      ''        "layers": ['',
      ''          {'',
      ''            "size": 2048,'',
      ''            "digest": {'',
      ''              "algorithm": "sha256",'',
      ''              "hex": "b1"'',
      ''            }'',
      ''          },'',
      ''          {'',
      ''            "size": 2048,'',
      ''            "digest": {'',
      ''              "algorithm": "sha256",'',
      ''              "hex": "b2"'',
      ''            }'',
      ''          }'',
      ''        ]'',
      ''      },'',
      ''      "Config": {'',
      ''        "architecture": "amd64",'',
      ''        "os": "linux",'',
      ''        "variant": "",'',
      ''        "rootfs": {'',
      ''          "diff_ids": ['',
      ''            {'',
      ''              "algorithm": "sha256",'',
      ''              "hex": "a1"'',
      ''            },'',
      ''            {'',
      ''              "algorithm": "sha256",'',
      ''              "hex": "a2"'',
      ''            }'',
      ''          ]'',
      ''        }'',
      ''      },'',
      ''      "RawManifest": "base64:{manifest}",'',
      ''      "RawConfig": "base64:{config}",'',
      ''      "Distro": {'',
      ''        "OsName": "debian",'',
      ''        "OsVersion": "11"'',
      ''      },'',
      ''      "Platform": {'',
      ''        "Os": "linux",'',
      ''        "Architecture": "amd64",'',
      ''        "Variant": ""'',
      ''      },'',
      ''      "Size": 1469,'',
      ''      "Tags": ['',
      ''        "latest"'',
      ''      ]'',
      ''    }'',
      ''  },'',
      ''  "Descriptor": {'',
      ''    "Name": "docker index",'',
      ''    "Version": "0.0.35",'',
      ''    "SbomVersion": "6"'',
      ''  }'',
      ''}'']\<close>

section \<open>Properties of the layer loop\<close>

lemma layerBody_fields [simp]:
  "ByDiffId (layerBody i layer diffId lm) =
     (ByDiffId lm)(Hash_String diffId \<mapsto> Hash_String (Digest layer))"
  "ByDigest (layerBody i layer diffId lm) =
     (ByDigest lm)(Hash_String (Digest layer) \<mapsto> Hash_String diffId)"
  "OrdinalByDiffId (layerBody i layer diffId lm) = (OrdinalByDiffId lm)(Hash_String diffId \<mapsto> i)"
  "DiffIdByOrdinal (layerBody i layer diffId lm) = (DiffIdByOrdinal lm)(i \<mapsto> Hash_String diffId)"
  "DigestByOrdinal (layerBody i layer diffId lm) =
     (DigestByOrdinal lm)(i \<mapsto> Hash_String (Digest layer))"
  by (simp_all add: layerBody_def)

lemma layerLoop_returns:
  "i + length rest \<le> length ds \<Longrightarrow> \<exists>r. layerLoop ds i rest lm = Inr r"
  by (induction rest arbitrary: i lm) auto

lemma layerLoop_panics:
  "i \<le> length ds \<Longrightarrow> length ds < i + length rest \<Longrightarrow>
   layerLoop ds i rest lm = Inl (IndexOutOfRange (length ds) (length ds))"
proof (induction rest arbitrary: i lm)
  case Nil
  then show ?case by simp
next
  case (Cons layer rest)
  show ?case
  proof (cases "i < length ds")
    case True
    with Cons.prems have "Suc i \<le> length ds" "length ds < Suc i + length rest" by auto
    from Cons.IH [OF this] True show ?thesis by simp
  next
    case False
    with Cons.prems have "i = length ds" by simp
    then show ?thesis by simp
  qed
qed

lemma layerLoop_Cons:
  "layerLoop ds i (layer # rest) lm = Inr r \<Longrightarrow>
   i < length ds \<and> layerLoop ds (Suc i) rest (layerBody i layer (ds ! i) lm) = Inr r"
  by (simp split: if_splits)

lemma layerLoop_length:
  "layerLoop ds i rest lm = Inr r \<Longrightarrow> i \<le> length ds \<Longrightarrow> i + length rest \<le> length ds"
proof (induction rest arbitrary: i lm)
  case Nil
  then show ?case by simp
next
  case (Cons layer rest)
  from layerLoop_Cons [OF Cons.prems(1)]
  have lt: "i < length ds"
    and step: "layerLoop ds (Suc i) rest (layerBody i layer (ds ! i) lm) = Inr r" by simp_all
  from Cons.IH [OF step] lt show ?case by simp
qed

lemma layerLoop_ordinals:
  "layerLoop ds i rest lm = Inr r \<Longrightarrow>
   DiffIdByOrdinal r j =
     (if i \<le> j \<and> j < i + length rest then Some (Hash_String (ds ! j)) else DiffIdByOrdinal lm j) \<and>
   DigestByOrdinal r j =
     (if i \<le> j \<and> j < i + length rest then Some (Hash_String (Digest (rest ! (j - i))))
      else DigestByOrdinal lm j)"
proof (induction rest arbitrary: i lm)
  case Nil
  then show ?case by auto
next
  case (Cons layer rest)
  from layerLoop_Cons [OF Cons.prems]
  have step: "layerLoop ds (Suc i) rest (layerBody i layer (ds ! i) lm) = Inr r" by simp
  from Cons.IH [OF step] show ?case
    by (cases "j = i") (auto simp: nth_Cons' Suc_diff_le)
qed

lemma layerLoop_other_digest:
  "layerLoop ds i rest lm = Inr r \<Longrightarrow> k \<notin> (\<lambda>l. Hash_String (Digest l)) ` set rest \<Longrightarrow>
   ByDigest r k = ByDigest lm k"
proof (induction rest arbitrary: i lm)
  case Nil
  then show ?case by simp
next
  case (Cons layer rest)
  from layerLoop_Cons [OF Cons.prems(1)]
  have step: "layerLoop ds (Suc i) rest (layerBody i layer (ds ! i) lm) = Inr r" by simp
  from Cons.prems(2) have "k \<notin> (\<lambda>l. Hash_String (Digest l)) ` set rest"
    and "k \<noteq> Hash_String (Digest layer)" by auto
  with Cons.IH [OF step] show ?case by simp
qed

lemma layerLoop_other_diffId:
  "layerLoop ds i rest lm = Inr r \<Longrightarrow>
   k \<notin> Hash_String ` set (take (length rest) (drop i ds)) \<Longrightarrow>
   ByDiffId r k = ByDiffId lm k \<and> OrdinalByDiffId r k = OrdinalByDiffId lm k"
proof (induction rest arbitrary: i lm)
  case Nil
  then show ?case by simp
next
  case (Cons layer rest)
  from layerLoop_Cons [OF Cons.prems(1)]
  have lt: "i < length ds"
    and step: "layerLoop ds (Suc i) rest (layerBody i layer (ds ! i) lm) = Inr r" by simp_all
  from lt have dr: "drop i ds = ds ! i # drop (Suc i) ds" by (simp add: Cons_nth_drop_Suc)
  from Cons.prems(2) dr have k1: "k \<noteq> Hash_String (ds ! i)"
    and k2: "k \<notin> Hash_String ` set (take (length rest) (drop (Suc i) ds))" by auto
  from Cons.IH [OF step k2] k1 show ?case by simp
qed

lemma layerLoop_by_digest:
  "layerLoop ds i rest lm = Inr r \<Longrightarrow> distinct (map (\<lambda>l. Hash_String (Digest l)) rest) \<Longrightarrow>
   j < length rest \<Longrightarrow>
   ByDigest r (Hash_String (Digest (rest ! j))) = Some (Hash_String (ds ! (i + j)))"
proof (induction rest arbitrary: i lm j)
  case Nil
  then show ?case by simp
next
  case (Cons layer rest)
  from layerLoop_Cons [OF Cons.prems(1)]
  have step: "layerLoop ds (Suc i) rest (layerBody i layer (ds ! i) lm) = Inr r" by simp
  show ?case
  proof (cases j)
    case 0
    from Cons.prems(2) have "Hash_String (Digest layer) \<notin> (\<lambda>l. Hash_String (Digest l)) ` set rest"
      by auto
    from layerLoop_other_digest [OF step this] 0 show ?thesis by simp
  next
    case (Suc j')
    with Cons.prems have "distinct (map (\<lambda>l. Hash_String (Digest l)) rest)" "j' < length rest"
      by auto
    from Cons.IH [OF step this] Suc show ?thesis by simp
  qed
qed

lemma layerLoop_by_diffId:
  "layerLoop ds i rest lm = Inr r \<Longrightarrow>
   distinct (map Hash_String (take (length rest) (drop i ds))) \<Longrightarrow> j < length rest \<Longrightarrow>
   OrdinalByDiffId r (Hash_String (ds ! (i + j))) = Some (i + j) \<and>
   ByDiffId r (Hash_String (ds ! (i + j))) = Some (Hash_String (Digest (rest ! j)))"
proof (induction rest arbitrary: i lm j)
  case Nil
  then show ?case by simp
next
  case (Cons layer rest)
  from layerLoop_Cons [OF Cons.prems(1)]
  have lt: "i < length ds"
    and step: "layerLoop ds (Suc i) rest (layerBody i layer (ds ! i) lm) = Inr r" by simp_all
  from lt have dr: "drop i ds = ds ! i # drop (Suc i) ds" by (simp add: Cons_nth_drop_Suc)
  show ?case
  proof (cases j)
    case 0
    from Cons.prems(2) dr
    have "Hash_String (ds ! i) \<notin> Hash_String ` set (take (length rest) (drop (Suc i) ds))"
      by auto
    from layerLoop_other_diffId [OF step this] 0 show ?thesis by simp
  next
    case (Suc j')
    with Cons.prems dr
    have "distinct (map Hash_String (take (length rest) (drop (Suc i) ds)))" "j' < length rest"
      by auto
    from Cons.IH [OF step this] Suc show ?thesis by simp
  qed
qed

lemma layerLoop_dom:
  "layerLoop ds i rest lm = Inr r \<Longrightarrow>
   dom (ByDigest r) = dom (ByDigest lm) \<union> (\<lambda>l. Hash_String (Digest l)) ` set rest \<and>
   dom (ByDiffId r) = dom (ByDiffId lm) \<union> Hash_String ` set (take (length rest) (drop i ds)) \<and>
   dom (OrdinalByDiffId r) =
     dom (OrdinalByDiffId lm) \<union> Hash_String ` set (take (length rest) (drop i ds)) \<and>
   dom (DiffIdByOrdinal r) = dom (DiffIdByOrdinal lm) \<union> {i ..< i + length rest} \<and>
   dom (DigestByOrdinal r) = dom (DigestByOrdinal lm) \<union> {i ..< i + length rest}"
proof (induction rest arbitrary: i lm)
  case Nil
  then show ?case by simp
next
  case (Cons layer rest)
  from layerLoop_Cons [OF Cons.prems(1)]
  have lt: "i < length ds"
    and step: "layerLoop ds (Suc i) rest (layerBody i layer (ds ! i) lm) = Inr r" by simp_all
  from lt have dr: "drop i ds = ds ! i # drop (Suc i) ds" by (simp add: Cons_nth_drop_Suc)
  have iv: "{i ..< i + length (layer # rest)} = insert i {Suc i ..< Suc i + length rest}"
    by auto
  have tk: "take (length (layer # rest)) (drop i ds) =
      ds ! i # take (length rest) (drop (Suc i) ds)"
    by (simp add: dr)
  from Cons.IH [OF step] show ?case
    unfolding iv tk by (simp del: fun_upd_apply)
qed

section \<open>Properties of the pipeline\<close>

lemma createLayerMapping_Inr:
  "createLayerMapping img = Inr lm \<Longrightarrow>
   \<exists>c m. img_ConfigFile img = Some c \<and> img_Manifest img = Some m"
  by (auto simp: createLayerMapping_def split: option.splits)

lemma assemble_Inr:
  assumes "img_ConfigFile img = Some c" and "img_Manifest img = Some m"
  shows "\<exists>sbom. assemble d img packages syftResult n tag = Inr sbom \<and>
           Artifacts sbom = packages \<and>
           Name (Image (Source sbom)) = n \<and>
           Tags (Image (Source sbom)) = (if tag = [] then None else Some tag) \<and>
           Descriptor sbom =
             \<lparr>desc_Name = ''docker index'', Version = build_Version (FromBuild d),
              SbomVersion = build_SbomVersion (FromBuild d)\<rparr> \<and>
           Vulnerabilities sbom = None"
  using assms by (simp add: assemble_def Let_def)

lemma persist_trace:
  "\<exists>es. trace (persist d w p sbom) = trace w @ es"
  by (simp add: persist_def os_WriteFile_def split: sum.splits)

lemma persist_environ: "environ (persist d w p sbom) = environ w"
  by (simp add: persist_def os_WriteFile_def split: sum.splits)

lemma persist_written:
  "json_MarshalIndent d sbom = Inr js \<Longrightarrow> \<not> unwritable w p \<Longrightarrow>
   files (persist d w p sbom) p = Regular js"
  by (simp add: persist_def os_WriteFile_def)

lemma indexImage_hit:
  "cachedSbom d w (sbomPath d path) = Some sbom \<Longrightarrow>
   indexImage d w img imageName path = Inr ((Some sbom, Some img, None), w)"
  by (simp add: indexImage_def)

lemma indexImage_computed:
  assumes "cachedSbom d w (sbomPath d path) = None" and "createLayerMapping img = Inr lm"
  shows "indexImage d w img imageName path =
     (let trivyResult =
            (trivySbom d path lm)\<lparr>Packages := fst (NormalizePackages d (Packages (trivySbom d path lm)))\<rparr>;
          syftResult =
            (syftSbom d path lm)\<lparr>Packages := fst (NormalizePackages d (Packages (syftSbom d path lm)))\<rparr>;
          w1 = w\<lparr>trace := trace w @ [RunTrivy path, RunSyft path]\<rparr>
      in case snd (NormalizePackages d (Packages (syftSbom d path lm))) of
           Some e \<Rightarrow>
             Inr ((None, None, Some (Wrap e (''failed to normalize packagess: '' @ imageName))), w1)
         | None \<Rightarrow>
             (case parseName d imageName of
                Inl e \<Rightarrow> Inr ((None, None, Some e), w1)
              | Inr (n, tag) \<Rightarrow>
                  (case assemble d img (MergePackages d syftResult trivyResult) syftResult n tag of
                     Inl p \<Rightarrow> Inl p
                   | Inr sbom \<Rightarrow>
                       Inr ((Some sbom, Some img, None), persist d w1 (sbomPath d path) sbom))))"
  using assms
  by (simp add: indexImage_def runEngines_def normalizeResults_def split_def Let_def
      cong: option.case_cong sum.case_cong)

lemma cachedSbom_Some_iff:
  "(cachedSbom d w p = Some sbom) =
   (environ w ''ATOMIST_NO_CACHE'' = None \<and>
    (\<exists>b. files w p = Regular b \<and> json_Unmarshal d b = Inr sbom) \<and>
    SbomVersion (Descriptor sbom) = build_SbomVersion (FromBuild d) \<and>
    Version (Descriptor sbom) = build_Version (FromBuild d))"
  by (auto simp: cachedSbom_def os_LookupEnv_def os_IsNotExist_def os_Stat_def os_ReadFile_def
      split: option.splits fnode.splits sum.splits)

lemma indexImage_normalize_error:
  assumes "cachedSbom d w (sbomPath d path) = None" and "createLayerMapping img = Inr lm"
    and "snd (NormalizePackages d (Packages (syftSbom d path lm))) = Some e"
  shows "indexImage d w img imageName path =
     Inr ((None, None, Some (Wrap e (''failed to normalize packagess: '' @ imageName))),
          w\<lparr>trace := trace w @ [RunTrivy path, RunSyft path]\<rparr>)"
  unfolding indexImage_computed [OF assms(1,2)] using assms(3) by (simp add: Let_def)

lemma indexImage_parse_error:
  assumes "cachedSbom d w (sbomPath d path) = None" and "createLayerMapping img = Inr lm"
    and "snd (NormalizePackages d (Packages (syftSbom d path lm))) = None"
    and "parseName d imageName = Inl e"
  shows "indexImage d w img imageName path =
     Inr ((None, None, Some e), w\<lparr>trace := trace w @ [RunTrivy path, RunSyft path]\<rparr>)"
  unfolding indexImage_computed [OF assms(1,2)] using assms(3,4) by (simp add: Let_def)

lemma indexImage_assembled:
  assumes "cachedSbom d w (sbomPath d path) = None" and "createLayerMapping img = Inr lm"
    and "snd (NormalizePackages d (Packages (syftSbom d path lm))) = None"
    and "parseName d imageName = Inr (n, tag)"
  shows "\<exists>sbom.
     indexImage d w img imageName path =
       Inr ((Some sbom, Some img, None),
            persist d (w\<lparr>trace := trace w @ [RunTrivy path, RunSyft path]\<rparr>) (sbomPath d path) sbom) \<and>
     Artifacts sbom =
       MergePackages d
         ((syftSbom d path lm)\<lparr>Packages := fst (NormalizePackages d (Packages (syftSbom d path lm)))\<rparr>)
         ((trivySbom d path lm)\<lparr>Packages := fst (NormalizePackages d (Packages (trivySbom d path lm)))\<rparr>) \<and>
     Name (Image (Source sbom)) = n \<and>
     Tags (Image (Source sbom)) = (if tag = [] then None else Some tag) \<and>
     Descriptor sbom =
       \<lparr>desc_Name = ''docker index'', Version = build_Version (FromBuild d),
        SbomVersion = build_SbomVersion (FromBuild d)\<rparr> \<and>
     Vulnerabilities sbom = None"
proof -
  from createLayerMapping_Inr [OF assms(2)] obtain c m
    where cm: "img_ConfigFile img = Some c" "img_Manifest img = Some m" by blast
  let ?sy = "(syftSbom d path lm)\<lparr>Packages := fst (NormalizePackages d (Packages (syftSbom d path lm)))\<rparr>"
  let ?tr = "(trivySbom d path lm)\<lparr>Packages := fst (NormalizePackages d (Packages (trivySbom d path lm)))\<rparr>"
  from assemble_Inr [OF cm, of d "MergePackages d ?sy ?tr" ?sy n tag]
  obtain sbom where a: "assemble d img (MergePackages d ?sy ?tr) ?sy n tag = Inr sbom"
    and p: "Artifacts sbom = MergePackages d ?sy ?tr" "Name (Image (Source sbom)) = n"
      "Tags (Image (Source sbom)) = (if tag = [] then None else Some tag)"
      "Descriptor sbom =
       \<lparr>desc_Name = ''docker index'', Version = build_Version (FromBuild d),
        SbomVersion = build_SbomVersion (FromBuild d)\<rparr>"
      "Vulnerabilities sbom = None"
    by blast
  have "indexImage d w img imageName path =
       Inr ((Some sbom, Some img, None),
            persist d (w\<lparr>trace := trace w @ [RunTrivy path, RunSyft path]\<rparr>) (sbomPath d path) sbom)"
    unfolding indexImage_computed [OF assms(1,2)] using assms(3,4) a by (simp add: Let_def)
  with p show ?thesis by blast
qed

lemma indexImage_miss_Inr:
  assumes miss: "cachedSbom d w (sbomPath d path) = None"
    and run: "indexImage d w img imageName path = Inr (r, w')"
  shows "\<exists>lm. createLayerMapping img = Inr lm \<and>
     ((\<exists>e. snd (NormalizePackages d (Packages (syftSbom d path lm))) = Some e \<and>
           r = (None, None, Some (Wrap e (''failed to normalize packagess: '' @ imageName))) \<and>
           w' = w\<lparr>trace := trace w @ [RunTrivy path, RunSyft path]\<rparr>) \<or>
      (\<exists>e. snd (NormalizePackages d (Packages (syftSbom d path lm))) = None \<and>
           parseName d imageName = Inl e \<and> r = (None, None, Some e) \<and>
           w' = w\<lparr>trace := trace w @ [RunTrivy path, RunSyft path]\<rparr>) \<or>
      (\<exists>n tag sbom. snd (NormalizePackages d (Packages (syftSbom d path lm))) = None \<and>
           parseName d imageName = Inr (n, tag) \<and> r = (Some sbom, Some img, None) \<and>
           w' = persist d (w\<lparr>trace := trace w @ [RunTrivy path, RunSyft path]\<rparr>)
                  (sbomPath d path) sbom \<and>
           Artifacts sbom =
             MergePackages d
               ((syftSbom d path lm)\<lparr>Packages := fst (NormalizePackages d (Packages (syftSbom d path lm)))\<rparr>)
               ((trivySbom d path lm)\<lparr>Packages := fst (NormalizePackages d (Packages (trivySbom d path lm)))\<rparr>) \<and>
           Name (Image (Source sbom)) = n \<and>
           Tags (Image (Source sbom)) = (if tag = [] then None else Some tag) \<and>
           Descriptor sbom =
             \<lparr>desc_Name = ''docker index'', Version = build_Version (FromBuild d),
              SbomVersion = build_SbomVersion (FromBuild d)\<rparr> \<and>
           Vulnerabilities sbom = None))"
proof -
  from run miss obtain lm where lm: "createLayerMapping img = Inr lm"
    by (cases "createLayerMapping img") (simp_all add: indexImage_def)
  show ?thesis
  proof (cases "snd (NormalizePackages d (Packages (syftSbom d path lm)))")
    case (Some e)
    from indexImage_normalize_error [OF miss lm Some, of imageName] run lm Some
    show ?thesis by auto
  next
    case None
    show ?thesis
    proof (cases "parseName d imageName")
      case (Inl e)
      from indexImage_parse_error [OF miss lm None Inl] run lm None Inl
      show ?thesis by auto
    next
      case (Inr nt)
      obtain n tag where nt: "nt = (n, tag)" by (cases nt)
      from indexImage_assembled [OF miss lm None Inr [unfolded nt]] run lm None Inr nt
      show ?thesis by auto
    qed
  qed
qed

lemma indexImage_miss_trace:
  assumes miss: "cachedSbom d w (sbomPath d path) = None"
    and run: "indexImage d w img imageName path = Inr (r, w')"
  shows "\<exists>es. trace w' = trace w @ RunTrivy path # RunSyft path # es"
  using indexImage_miss_Inr [OF miss run]
    persist_trace [of d "w\<lparr>trace := trace w @ [RunTrivy path, RunSyft path]\<rparr>" "sbomPath d path"]
  by (elim exE conjE disjE) auto

lemma parseName_nonempty:
  "imageName \<noteq> [] \<Longrightarrow>
   parseName d imageName =
     (case ParseReference d imageName of
        Inl err \<Rightarrow> Inl (Wrap err (''failed to parse reference: '' @ imageName))
      | Inr ref \<Rightarrow>
          Inr (ref_Context ref,
               if strings_HasPrefix (ref_Identifier ref) ''sha256:'' then []
               else [ref_Identifier ref]))"
  by (simp add: parseName_def split: sum.splits)

lemma parseName_empty: "parseName d [] = Inr ([], [])"
  by (simp add: parseName_def)

lemma indexImage_ignores_parser:
  "indexImage (d\<lparr>ParseReference := p\<rparr>) w img [] path = indexImage d w img [] path"
proof -
  let ?d = "d\<lparr>ParseReference := p\<rparr>"
  have a: "sbomPath ?d path = sbomPath d path" by (simp add: sbomPath_def)
  have b: "cachedSbom ?d w q = cachedSbom d w q" for q
    by (simp add: cachedSbom_def cong: option.case_cong sum.case_cong if_cong)
  have c: "runEngines ?d w path lm = runEngines d w path lm" for lm
    by (simp add: runEngines_def)
  have e: "normalizeResults ?d t s = normalizeResults d t s" for t s
    by (simp add: normalizeResults_def)
  have f: "parseName ?d [] = parseName d []" by (simp add: parseName_def)
  have g: "assemble ?d img ps s n tag = assemble d img ps s n tag" for ps s n tag
    by (simp add: assemble_def cong: option.case_cong)
  have h: "persist ?d v q s = persist d v q s" for v q s
    by (simp add: persist_def)
  show ?thesis
    by (simp add: indexImage_def a b c e f g h Let_def split_def
        cong: option.case_cong sum.case_cong)
qed

lemma normalizeResults_error:
  "snd (snd (normalizeResults d trivyResult syftResult)) =
     snd (NormalizePackages d (Packages syftResult))"
  by (simp add: normalizeResults_def split_def Let_def)

lemma indexImageAsync_enrichment_error:
  assumes "IndexImage d w input client = Inr ((sbom, img, err), w')"
    and "QueryCves d sbom = (cves, Some e)"
  shows "indexImageAsync d w input client =
     Inr (\<lparr>Input = input, out_Image = img, out_Sbom = sbom, out_Error = Some e\<rparr>, w')"
  using assms by (simp add: indexImageAsync_def)

lemma indexImageAsync_enriched:
  assumes "IndexImage d w input client = Inr ((sbom, img, err), w')"
    and "QueryCves d sbom = (cves, None)"
  shows "indexImageAsync d w input client =
     (case (sbom, cves) of
        (Some s, Some vs) \<Rightarrow>
          Inr (\<lparr>Input = input, out_Image = img,
                out_Sbom = Some (s\<lparr>Vulnerabilities := Some vs\<rparr>), out_Error = None\<rparr>, w')
      | _ \<Rightarrow> Inl NilPointerDereference)"
  using assms by (simp add: indexImageAsync_def)

lemma IndexImage_download_error:
  "SaveImage d input client = Inl e \<Longrightarrow>
   IndexImage d w input client = Inr ((None, None, Some (Wrap e ''failed to download image'')), w)"
  by (simp add: IndexImage_def)

lemma IndexImage_downloaded:
  "SaveImage d input client = Inr (img, path) \<Longrightarrow>
   IndexImage d w input client = indexImage d w img input path"
  by (simp add: IndexImage_def)

section \<open>Properties of the JSON encoding\<close>

text \<open>
  Every parser of the encoding inverts its printer: the lexical layer first (white
  space, tokens, string literals, integers), then each combinator, then each type of
  the document schema, and last \<open>unmarshalSbom\<close> on what \<open>marshalSbom\<close> returns.
\<close>

lemma skip_ws_simps [simp]:
  "skip_ws [] = []"
  "skip_ws (newline n @ s) = skip_ws s"
  "skip_ws (CHR '' '' # s) = skip_ws s"
  "\<not> is_space c \<Longrightarrow> skip_ws (c # s) = c # s"
  by (simp_all add: skip_ws_def newline_def is_space_def dropWhile_append)

lemma token_simps [simp]:
  "token t (newline n @ s) = token t s"
  "token t (CHR '' '' # s) = token t s"
  by (simp_all add: token_def)

lemma token_here:
  "\<not> is_space c \<Longrightarrow> token (c # t) (c # t @ rest) = Some rest"
  by (simp add: token_def)

lemma token_other:
  "\<not> is_space c \<Longrightarrow> c \<noteq> d \<Longrightarrow> token (d # t) (c # s) = None"
  by (simp add: token_def)

lemma not_space [simp]:
  "\<not> is_space dquote" "\<not> is_space CHR ''{''" "\<not> is_space CHR ''}''" "\<not> is_space CHR ''[''"
  "\<not> is_space CHR '']''" "\<not> is_space CHR '',''" "\<not> is_space CHR '':''" "\<not> is_space CHR ''n''"
  "\<not> is_space CHR ''-''"
  by (simp_all add: is_space_def dquote_def lf_def)

lemma hex_value_digit: "k < 16 \<Longrightarrow> hex_value (hex_digit k) = Some k"
  by (auto simp: hex_value_def hex_digit_def Let_def)

lemma escape_nonempty: "escape c \<noteq> []"
  by (simp add: escape_def)

lemma read_char_escape: "read_char (escape c @ t) = Some (c, t)"
proof -
  have d: "(of_char c :: nat) div 16 < 16" "(of_char c :: nat) mod 16 < 16"
    using nat_of_char_less_256 [of c] by (simp_all add: less_mult_imp_div_less)
  have e: "char_of (16 * ((of_char c :: nat) div 16) + (of_char c :: nat) mod 16) = c"
    by simp
  show ?thesis
    using e
    by (simp add: escape_def read_char_def read_hex4_def unescape_def hex_value_digit [OF d(1)]
        hex_value_digit [OF d(2)] dquote_def bslash_def lf_def)
qed

lemma escape_not_quote: "hd (escape c @ t) \<noteq> dquote"
  by (simp add: escape_def dquote_def bslash_def)

lemma unquote_fuel_escape:
  "length s < f \<Longrightarrow>
   unquote_fuel f (concat (map escape s) @ dquote # rest) = Some (s, rest)"
proof (induction s arbitrary: f)
  case Nil
  then obtain g where "f = Suc g" by (cases f) auto
  then show ?case by simp
next
  case (Cons c s)
  then obtain g where f: "f = Suc g" and g: "length s < g" by (cases f) auto
  let ?t = "concat (map escape s) @ dquote # rest"
  obtain x xs where e: "escape c @ ?t = x # xs" and x: "x \<noteq> dquote"
    using escape_not_quote [of c ?t] escape_nonempty [of c] by (cases "escape c @ ?t") auto
  from Cons.IH [OF g] read_char_escape [of c ?t] e x f
  show ?case by simp
qed

lemma length_escaped: "length s \<le> length (concat (map escape s))"
proof (induction s)
  case Nil
  then show ?case by simp
next
  case (Cons c s)
  have "1 \<le> length (escape c)" using escape_nonempty [of c] by (cases "escape c") auto
  with Cons show ?case by simp
qed

lemma unquote_quote: "unquote (tl (quote s) @ rest) = Some (s, rest)"
proof -
  have "length s < length (concat (map escape s) @ dquote # rest)"
    using length_escaped [of s] by simp
  from unquote_fuel_escape [OF this] show ?thesis by (simp add: unquote_def quote_def)
qed

lemma digit_props [simp]:
  "k < 10 \<Longrightarrow> is_digit (digit k)" "k < 10 \<Longrightarrow> digit_value (digit k) = k"
  by (simp_all add: is_digit_def digit_def digit_value_def)

lemma show_nat_digits: "list_all is_digit (show_nat n)"
  by (induction n rule: show_nat.induct) (subst show_nat.simps, simp)

lemma show_nat_nonempty: "show_nat n \<noteq> []"
  by (subst show_nat.simps) simp

lemma read_show_nat: "read_nat (show_nat n) = n"
proof (induction n rule: show_nat.induct)
  case (1 n)
  show ?case
  proof (cases "n < 10")
    case True
    then show ?thesis by (subst show_nat.simps) (simp add: read_nat_def)
  next
    case False
    with 1 have "read_nat (show_nat (n div 10)) = n div 10" by simp
    with False show ?thesis by (subst show_nat.simps) (simp add: read_nat_def)
  qed
qed

lemma skip_ws_spaces: "list_all is_space ws \<Longrightarrow> skip_ws (ws @ s) = skip_ws s"
  by (simp add: skip_ws_def dropWhile_append list_all_iff)

lemma token_spaces: "list_all is_space ws \<Longrightarrow> token t (ws @ s) = token t s"
  by (simp add: token_def skip_ws_spaces)

lemma spaces_newline [simp]: "list_all is_space (newline n)" "list_all is_space '' ''"
  by (simp_all add: newline_def is_space_def list_all_iff)

lemma follows_simps [simp]:
  "follows []" "follows (CHR '','' # s)" "follows (newline n @ s)"
  by (simp_all add: follows_def newline_def)

lemma follows_not_digit: "follows rest \<Longrightarrow> takeWhile is_digit rest = [] \<and> dropWhile is_digit rest = rest"
  by (cases rest) (auto simp: follows_def is_digit_def lf_def)

lemma invertsD:
  "inverts pr pa \<Longrightarrow> list_all is_space ws \<Longrightarrow> follows rest \<Longrightarrow>
   pa (ws @ pr n x @ rest) = Some (x, rest)"
  by (simp add: inverts_def)

lemma invertsD0: "inverts pr pa \<Longrightarrow> follows rest \<Longrightarrow> pa (pr n x @ rest) = Some (x, rest)"
  using invertsD [of pr pa "[]"] by simp

lemma opensD: "opens p \<Longrightarrow> \<exists>c r. p n x = c # r \<and> \<not> is_space c \<and> c \<noteq> CHR '']'' \<and> c \<noteq> CHR ''n''"
  by (simp add: opens_def)

lemma inverts_string: "inverts string_pr string_pa"
  unfolding inverts_def
proof (intro allI impI)
  fix n :: nat and x ws rest
  assume ws: "list_all is_space ws"
  show "string_pa (ws @ string_pr n x @ rest) = Some (x, rest)"
    using unquote_quote [of x rest]
    by (simp add: string_pa_def string_pr_def skip_ws_spaces [OF ws] quote_def)
qed

lemma dquote_neq [simp]: "dquote \<noteq> CHR '']''" "dquote \<noteq> CHR ''n''"
  by (simp_all add: dquote_def)

lemma opens_string: "opens string_pr"
  by (simp add: opens_def string_pr_def quote_def)

lemma show_nat_hd: "\<exists>c r. show_nat k = c # r \<and> is_digit c"
  using show_nat_digits [of k] show_nat_nonempty [of k] by (cases "show_nat k") auto

lemma digit_not_space: "is_digit c \<Longrightarrow> \<not> is_space c \<and> c \<noteq> CHR ''-'' \<and> c \<noteq> CHR '']'' \<and> c \<noteq> CHR ''n''"
  by (auto simp: is_digit_def is_space_def lf_def)

lemma digits_then:
  "follows rest \<Longrightarrow>
   takeWhile is_digit (show_nat k @ rest) = show_nat k \<and>
   dropWhile is_digit (show_nat k @ rest) = rest"
  using show_nat_digits [of k] follows_not_digit [of rest]
  by (simp add: takeWhile_append dropWhile_append list_all_iff)

lemma inverts_int: "inverts int_pr int_pa"
  unfolding inverts_def
proof (intro allI impI)
  fix n :: nat and x :: int and ws rest
  assume ws: "list_all is_space ws" and fo: "follows rest"
  show "int_pa (ws @ int_pr n x @ rest) = Some (x, rest)"
  proof (cases "x < 0")
    case True
    have "skip_ws (ws @ show_int x @ rest) = CHR ''-'' # show_nat (nat (- x)) @ rest"
      using True by (simp add: skip_ws_spaces [OF ws] show_int_def)
    with True digits_then [OF fo, of "nat (- x)"] show_nat_nonempty [of "nat (- x)"]
    show ?thesis by (simp add: int_pa_def int_pr_def read_show_nat)
  next
    case False
    from show_nat_hd [of "nat x"] obtain c r where cr: "show_nat (nat x) = c # r" and c: "is_digit c"
      by blast
    from digit_not_space [OF c] cr False
    have "skip_ws (ws @ show_int x @ rest) = c # r @ rest"
      by (simp add: skip_ws_spaces [OF ws] show_int_def)
    moreover from digits_then [OF fo, of "nat x"] cr
    have "takeWhile is_digit (c # r @ rest) = c # r" "dropWhile is_digit (c # r @ rest) = rest"
      by simp_all
    moreover from read_show_nat [of "nat x"] cr have "read_nat (c # r) = nat x" by simp
    ultimately show ?thesis
      using False digit_not_space [OF c] by (simp add: int_pa_def int_pr_def)
  qed
qed

lemma opens_int: "opens int_pr"
  unfolding opens_def
proof (intro allI)
  fix n :: nat and x :: int
  show "\<exists>c r. int_pr n x = c # r \<and> \<not> is_space c \<and> c \<noteq> CHR '']'' \<and> c \<noteq> CHR ''n''"
  proof (cases "x < 0")
    case True
    then show ?thesis by (simp add: int_pr_def show_int_def)
  next
    case False
    from show_nat_hd [of "nat x"] obtain c r where "show_nat (nat x) = c # r" "is_digit c" by blast
    with False digit_not_space [of c] show ?thesis by (simp add: int_pr_def show_int_def)
  qed
qed

lemma token_miss:
  "list_all is_space ws \<Longrightarrow> \<not> is_space c \<Longrightarrow> c \<noteq> d \<Longrightarrow> token (d # t) (ws @ c # s) = None"
  by (simp add: token_spaces token_other)

lemma token_hit:
  "list_all is_space ws \<Longrightarrow> \<not> is_space c \<Longrightarrow> token (c # t) (ws @ c # t @ rest) = Some rest"
  by (simp add: token_spaces token_here)

lemma inverts_null_or:
  assumes i: "inverts p pa" and o: "opens p"
  shows "inverts (null_or_pr p) (null_or_pa pa)"
  unfolding inverts_def
proof (intro allI impI)
  fix n :: nat and x :: "'a option" and ws rest
  assume ws: "list_all is_space ws" and fo: "follows rest"
  show "null_or_pa pa (ws @ null_or_pr p n x @ rest) = Some (x, rest)"
  proof (cases x)
    case None
    from token_hit [OF ws, of "CHR ''n''" "''ull''" rest]
    show ?thesis using None by (simp add: null_or_pa_def null_or_pr_def)
  next
    case (Some y)
    from opensD [OF o, of n y] obtain c r where cr: "p n y = c # r" and c: "\<not> is_space c" "c \<noteq> CHR ''n''"
      by blast
    from token_miss [OF ws c(1) c(2), of "''ull''" "r @ rest"] cr
    have "token ''null'' (ws @ p n y @ rest) = None" by simp
    with invertsD [OF i ws fo, of n y] Some show ?thesis
      by (simp add: null_or_pa_def null_or_pr_def)
  qed
qed

lemma elements_follow:
  assumes i: "inverts p pa"
  shows "xs \<noteq> [] \<Longrightarrow> length xs \<le> f \<Longrightarrow>
     elements_pa f pa (elements_pr p n xs @ newline m @ CHR '']'' # rest) =
       Some (xs, newline m @ CHR '']'' # rest)"
proof (induction xs arbitrary: f)
  case Nil
  then show ?case by simp
next
  case (Cons x xs)
  then obtain g where f: "f = Suc g" and g: "length xs \<le> g" by (cases f) auto
  show ?case
  proof (cases "xs = []")
    case True
    have a: "pa (newline n @ p n x @ newline m @ CHR '']'' # rest) =
        Some (x, newline m @ CHR '']'' # rest)"
      by (rule invertsD [OF i]) simp_all
    have b: "token '','' (newline m @ CHR '']'' # rest) = None"
      by (rule token_miss) simp_all
    from a b True f show ?thesis by simp
  next
    case False
    have a: "pa (newline n @ p n x @ CHR '','' # elements_pr p n xs @ newline m @ CHR '']'' # rest) =
        Some (x, CHR '','' # elements_pr p n xs @ newline m @ CHR '']'' # rest)"
      by (rule invertsD [OF i]) simp_all
    have b: "token '','' (CHR '','' # elements_pr p n xs @ newline m @ CHR '']'' # rest) =
        Some (elements_pr p n xs @ newline m @ CHR '']'' # rest)"
      using token_here [of "CHR '',''" "[]"] by simp
    from Cons.IH [OF False g] a b False f show ?thesis by simp
  qed
qed

lemma elements_length: "length xs \<le> length (elements_pr p n xs)"
  by (induction xs) (auto simp: newline_def)

lemma elements_open:
  "opens p \<Longrightarrow> xs \<noteq> [] \<Longrightarrow>
   \<exists>c r. elements_pr p n xs = newline n @ c # r \<and> \<not> is_space c \<and> c \<noteq> CHR '']''"
  using opensD [of p n "hd xs"] by (cases xs) auto

lemma inverts_array:
  assumes i: "inverts p pa" and o: "opens p"
  shows "inverts (array_pr p) (array_pa pa)"
  unfolding inverts_def
proof (intro allI impI)
  fix n :: nat and xs :: "'a list" and ws rest
  assume ws: "list_all is_space ws" and fo: "follows rest"
  show "array_pa pa (ws @ array_pr p n xs @ rest) = Some (xs, rest)"
  proof (cases "xs = []")
    case True
    have "token ''['' (ws @ ''[]'' @ rest) = Some (CHR '']'' # rest)"
      using token_hit [OF ws, of "CHR ''[''" "[]" "CHR '']'' # rest"] by simp
    moreover have "token '']'' (CHR '']'' # rest) = Some rest"
      using token_here [of "CHR '']''" "[]" rest] by simp
    ultimately show ?thesis using True by (simp add: array_pa_def array_pr_def)
  next
    case False
    let ?body = "elements_pr p (Suc n) xs @ newline n @ CHR '']'' # rest"
    from elements_open [OF o False, of "Suc n"] obtain c r
      where cr: "elements_pr p (Suc n) xs = newline (Suc n) @ c # r"
        and c: "\<not> is_space c" "c \<noteq> CHR '']''"
      by blast
    have a: "token ''['' (ws @ CHR ''['' # ?body) = Some ?body"
      using token_hit [OF ws, of "CHR ''[''" "[]" ?body] by simp
    have b: "token '']'' ?body = None"
      using token_miss [of "newline (Suc n)" c "CHR '']''" "[]" "r @ newline n @ CHR '']'' # rest"] c cr
      by simp
    have len: "length xs \<le> length ?body"
      using elements_length [of xs p "Suc n"] by simp
    have d: "elements_pa (length ?body) pa ?body = Some (xs, newline n @ CHR '']'' # rest)"
      by (rule elements_follow [OF i False len])
    have e: "token '']'' (newline n @ CHR '']'' # rest) = Some rest"
      using token_hit [of "newline n" "CHR '']''" "[]" rest] by simp
    from a b d e False show ?thesis by (simp add: array_pa_def array_pr_def)
  qed
qed

lemma opens_array: "opens (array_pr p)"
  by (simp add: opens_def array_pr_def is_space_def lf_def)

lemma inverts_member:
  assumes i: "inverts p pa"
  shows "inverts (member_pr k p) (member_pa k pa)"
  unfolding inverts_def
proof (intro allI impI)
  fix n :: nat and x :: 'a and ws rest
  assume ws: "list_all is_space ws" and fo: "follows rest"
  obtain t where t: "quote k = dquote # t" by (simp add: quote_def)
  have ws': "list_all is_space (ws @ newline n)" using ws by simp
  have a: "token (dquote # t) ((ws @ newline n) @ dquote # t @ '': '' @ p n x @ rest) =
      Some ('': '' @ p n x @ rest)"
    by (rule token_hit [OF ws']) simp
  have b: "token '':'' ('': '' @ p n x @ rest) = Some ('' '' @ p n x @ rest)"
    using token_here [of "CHR '':''" "[]"] by simp
  have c: "pa ('' '' @ p n x @ rest) = Some (x, rest)"
    by (rule invertsD [OF i _ fo]) (simp add: is_space_def)
  from a b c show "member_pa k pa (ws @ member_pr k p n x @ rest) = Some (x, rest)"
    by (simp add: member_pa_def member_pr_def t)
qed

lemma inverts_and:
  assumes i: "inverts p pa" and j: "inverts q qa"
  shows "inverts (and_pr p q) (and_pa pa qa)"
  unfolding inverts_def
proof (intro allI impI)
  fix n :: nat and x :: "'a \<times> 'b" and ws rest
  assume ws: "list_all is_space ws" and fo: "follows rest"
  have a: "pa (ws @ p n (fst x) @ CHR '','' # q n (snd x) @ rest) =
      Some (fst x, CHR '','' # q n (snd x) @ rest)"
    by (rule invertsD [OF i ws]) simp
  have b: "token '','' (CHR '','' # q n (snd x) @ rest) = Some (q n (snd x) @ rest)"
    using token_here [of "CHR '',''" "[]"] by simp
  have c: "qa (q n (snd x) @ rest) = Some (snd x, rest)"
    by (rule invertsD0 [OF j fo])
  from a b c show "and_pa pa qa (ws @ and_pr p q n x @ rest) = Some (x, rest)"
    by (simp add: and_pa_def and_pr_def)
qed

lemma inverts_as:
  assumes i: "inverts p pa" and gf: "\<And>x. g (f x) = x"
  shows "inverts (as_pr f p) (as_pa g pa)"
  using i by (simp add: inverts_def as_pr_def as_pa_def gf)

lemma inverts_in_objectI: "inverts p pa \<Longrightarrow> inverts_in_object p pa"
  by (simp add: inverts_def inverts_in_object_def)

lemma inverts_with_optional:
  assumes i: "inverts p pa" and j: "inverts q qa"
  shows "inverts_in_object (with_optional_pr p k q) (with_optional_pa pa k qa)"
  unfolding inverts_in_object_def
proof (intro allI impI)
  fix n m :: nat and x :: "'a \<times> 'b option" and ws rest
  assume ws: "list_all is_space ws"
  let ?rest = "newline m @ CHR ''}'' # rest"
  show "with_optional_pa pa k qa (ws @ with_optional_pr p k q n x @ ?rest) = Some (x, ?rest)"
  proof (cases "snd x")
    case None
    have a: "pa (ws @ p n (fst x) @ ?rest) = Some (fst x, ?rest)"
      by (rule invertsD [OF i ws]) simp
    have b: "token '','' ?rest = None"
      by (rule token_miss) simp_all
    from a b None show ?thesis
      by (cases x) (simp add: with_optional_pa_def with_optional_pr_def)
  next
    case (Some y)
    let ?more = "member_pr k q n y @ ?rest"
    have a: "pa (ws @ p n (fst x) @ CHR '','' # ?more) = Some (fst x, CHR '','' # ?more)"
      by (rule invertsD [OF i ws]) simp
    have b: "token '','' (CHR '','' # ?more) = Some ?more"
      using token_here [of "CHR '',''" "[]"] by simp
    have c: "member_pa k qa ?more = Some (y, ?rest)"
      by (rule invertsD0 [OF inverts_member [OF j]]) simp
    from a b c Some show ?thesis
      by (cases x) (simp add: with_optional_pa_def with_optional_pr_def)
  qed
qed

lemma inverts_object:
  assumes i: "inverts_in_object p pa"
  shows "inverts (object_pr p) (object_pa pa)"
  unfolding inverts_def
proof (intro allI impI)
  fix n :: nat and x :: 'a and ws rest
  assume ws: "list_all is_space ws" and fo: "follows rest"
  let ?body = "p (Suc n) x @ newline n @ CHR ''}'' # rest"
  have a: "token ''{'' (ws @ CHR ''{'' # ?body) = Some ?body"
    using token_hit [OF ws, of "CHR ''{''" "[]" ?body] by simp
  have b: "pa ?body = Some (x, newline n @ CHR ''}'' # rest)"
    using i [unfolded inverts_in_object_def, rule_format, of "[]" "Suc n" x n rest] by simp
  have c: "token ''}'' (newline n @ CHR ''}'' # rest) = Some rest"
    using token_hit [of "newline n" "CHR ''}''" "[]" rest] by simp
  from a b c show "object_pa pa (ws @ object_pr p n x @ rest) = Some (x, rest)"
    by (simp add: object_pa_def object_pr_def)
qed

lemma inverts_members:
  "inverts p pa \<Longrightarrow> inverts (object_pr p) (object_pa pa)"
  by (rule inverts_object [OF inverts_in_objectI])

lemma opens_object: "opens (object_pr p)"
  by (simp add: opens_def object_pr_def is_space_def lf_def)

lemma opens_as: "opens p \<Longrightarrow> opens (as_pr f p)"
  by (simp add: opens_def as_pr_def)

lemmas inverts_intros =
  inverts_as inverts_members inverts_and inverts_member inverts_string inverts_int
  inverts_array inverts_null_or opens_as opens_object opens_string

lemma inverts_Package: "inverts Package_pr Package_pa"
  unfolding Package_pr_def Package_pa_def by (intro inverts_intros) simp

lemma opens_Package: "opens Package_pr"
  unfolding Package_pr_def by (intro opens_as opens_object)

lemma inverts_Cve: "inverts Cve_pr Cve_pa"
  unfolding Cve_pr_def Cve_pa_def by (intro inverts_intros) (simp split: Cve.split)

lemma opens_Cve: "opens Cve_pr"
  unfolding Cve_pr_def by (intro opens_as opens_object)

lemma inverts_Distro: "inverts Distro_pr Distro_pa"
  unfolding Distro_pr_def Distro_pa_def by (intro inverts_intros) simp

lemma inverts_Platform: "inverts Platform_pr Platform_pa"
  unfolding Platform_pr_def Platform_pa_def by (intro inverts_intros) simp

lemma inverts_Hash: "inverts Hash_pr Hash_pa"
  unfolding Hash_pr_def Hash_pa_def by (intro inverts_intros) simp

lemma opens_Hash: "opens Hash_pr"
  unfolding Hash_pr_def by (intro opens_as opens_object)

lemma inverts_RootFS: "inverts RootFS_pr RootFS_pa"
  unfolding RootFS_pr_def RootFS_pa_def
  by (intro inverts_intros inverts_Hash opens_Hash) simp

lemma inverts_ConfigFile: "inverts ConfigFile_pr ConfigFile_pa"
  unfolding ConfigFile_pr_def ConfigFile_pa_def
  by (intro inverts_intros inverts_RootFS) simp

lemma opens_ConfigFile: "opens ConfigFile_pr"
  unfolding ConfigFile_pr_def by (intro opens_as opens_object)

lemma inverts_v1_Descriptor: "inverts v1_Descriptor_pr v1_Descriptor_pa"
  unfolding v1_Descriptor_pr_def v1_Descriptor_pa_def
  by (intro inverts_intros inverts_Hash) simp

lemma opens_v1_Descriptor: "opens v1_Descriptor_pr"
  unfolding v1_Descriptor_pr_def by (intro opens_as opens_object)

lemma inverts_Manifest: "inverts Manifest_pr Manifest_pa"
  unfolding Manifest_pr_def Manifest_pa_def
  by (intro inverts_intros inverts_v1_Descriptor opens_v1_Descriptor) simp

lemma opens_Manifest: "opens Manifest_pr"
  unfolding Manifest_pr_def by (intro opens_as opens_object)

lemma inverts_ImageSource: "inverts ImageSource_pr ImageSource_pa"
  unfolding ImageSource_pr_def ImageSource_pa_def
  apply (rule inverts_as)
   apply (rule inverts_object)
   apply (rule inverts_with_optional)
    apply (intro inverts_and inverts_member inverts_string inverts_int inverts_null_or
      inverts_Manifest opens_Manifest inverts_ConfigFile opens_ConfigFile inverts_Distro
      inverts_Platform)
   apply (intro inverts_array inverts_string opens_string)
  apply simp
  done

lemma inverts_Source: "inverts Source_pr Source_pa"
  unfolding Source_pr_def Source_pa_def
  by (intro inverts_intros inverts_ImageSource) simp

lemma inverts_Descriptor: "inverts Descriptor_pr Descriptor_pa"
  unfolding Descriptor_pr_def Descriptor_pa_def by (intro inverts_intros) simp

lemma inverts_Sbom: "inverts Sbom_pr Sbom_pa"
  unfolding Sbom_pr_def Sbom_pa_def
  apply (rule inverts_as)
   apply (rule inverts_object)
   apply (rule inverts_with_optional)
    apply (intro inverts_and inverts_member inverts_array inverts_Package opens_Package
      inverts_Source inverts_Descriptor)
   apply (intro inverts_array inverts_Cve opens_Cve)
  apply simp
  done

lemma unmarshal_marshal: "marshalSbom sbom = Inr js \<Longrightarrow> unmarshalSbom js = Inr sbom"
  using invertsD0 [OF inverts_Sbom, of "[]" 0 sbom]
  by (auto simp: marshalSbom_def unmarshalSbom_def)

section \<open>The example collaborators, evaluated\<close>

lemma exampleDeps_fields [simp]:
  "FromBuild exampleDeps = \<lparr>build_Version = ''0.0.35'', build_SbomVersion = ''6''\<rparr>"
  "filepath_Join exampleDeps dir file = dir @ ''/'' @ file"
  "json_Unmarshal exampleDeps = exampleUnmarshal"
  "json_MarshalIndent exampleDeps = exampleMarshalIndent"
  "trivySbom exampleDeps path lm = failedResult"
  "syftSbom exampleDeps path lm = threePackageResult"
  "NormalizePackages exampleDeps = exampleNormalize"
  "MergePackages exampleDeps = exampleMerge"
  "ParseReference exampleDeps = exampleParseReference"
  "SaveImage exampleDeps input client =
     (if input = ''repo/missing:latest'' then Inl (ErrorString ''manifest unknown'')
      else Inr (twoLayerImage, ''/tmp/image''))"
  "ReadImage exampleDeps path = Inr twoLayerImage"
  "QueryCves exampleDeps = exampleQueryCves"
  by (simp_all add: exampleDeps_def)

lemma worldWith_fields [simp]:
  "environ (worldWith b) = Map.empty"
  "files (worldWith b) ''/tmp/image/sbom.json'' = Regular b"
  "trace (worldWith b) = []"
  "environ emptyWorld = Map.empty"
  "files emptyWorld p = Missing"
  "unwritable emptyWorld p = False"
  "trace emptyWorld = []"
  by (simp_all add: worldWith_def emptyWorld_def)

lemma example_sbomPath [simp]: "sbomPath exampleDeps ''/tmp/image'' = ''/tmp/image/sbom.json''"
  by (simp add: sbomPath_def)

lemma example_cached_current:
  "cachedSbom exampleDeps (worldWith ''sbom-v6'') ''/tmp/image/sbom.json'' =
     Some (persistedDocument ''6'')"
  by (simp add: cachedSbom_def os_LookupEnv_def os_Stat_def os_IsNotExist_def os_ReadFile_def
      exampleUnmarshal_def persistedDocument_def)

lemma example_cached_stale:
  "cachedSbom exampleDeps (worldWith ''sbom-v5'') ''/tmp/image/sbom.json'' = None"
  by (simp add: cachedSbom_def os_LookupEnv_def os_Stat_def os_IsNotExist_def os_ReadFile_def
      exampleUnmarshal_def persistedDocument_def)

lemma example_cached_empty: "cachedSbom d emptyWorld p = None"
  by (simp add: cachedSbom_def os_LookupEnv_def os_Stat_def os_IsNotExist_def)

lemma example_mapping: "\<exists>lm. createLayerMapping twoLayerImage = Inr lm"
  by (simp add: createLayerMapping_def twoLayerImage_def exampleImage_def exampleConfig_def
      exampleManifest_def)

lemma example_parse_tag:
  "parseName exampleDeps ''repo/image:latest'' = Inr (''index.docker.io/repo/image'', [''latest''])"
  by (simp add: parseName_def exampleParseReference_def strings_HasPrefix_def)

lemma example_parse_digest:
  "parseName exampleDeps digestReference = Inr (''index.docker.io/repo/image'', [])"
  by (simp add: parseName_def exampleParseReference_def strings_HasPrefix_def
      digestReference_def)

lemma example_parse_bad:
  "parseName exampleDeps ''Not A Reference'' =
     Inl (Wrap (ErrorString ''could not parse reference'')
            ''failed to parse reference: Not A Reference'')"
  by (simp add: parseName_def exampleParseReference_def digestReference_def)

lemma example_normalize:
  "exampleNormalize [] = ([], None)" "exampleNormalize threePackages = (threePackages, None)"
  "exampleNormalize [unresolvedPackage] = ([], Some (ErrorString ''layer not found''))"
  by (simp_all add: exampleNormalize_def threePackages_def unresolvedPackage_def)

lemma example_merge:
  "Packages a = threePackages \<Longrightarrow> Packages b = [] \<Longrightarrow> exampleMerge a b = threePackages"
  "Packages a = [] \<Longrightarrow> Packages b = threePackages \<Longrightarrow> exampleMerge a b = threePackages"
  by (simp_all add: exampleMerge_def threePackages_def)

text \<open>
  The JSON encoding at the examples: the first run on the empty directory and the
  document it assembles, the text of that document, and the parser on texts that no
  printer of this theory wrote.
\<close>

lemma jsonDeps_fields [simp]:
  "FromBuild jsonDeps = \<lparr>build_Version = ''0.0.35'', build_SbomVersion = ''6''\<rparr>"
  "filepath_Join jsonDeps dir file = dir @ ''/'' @ file"
  "json_Unmarshal jsonDeps = unmarshalSbom"
  "json_MarshalIndent jsonDeps = marshalSbom"
  "base64_EncodeToString jsonDeps b = ''base64:'' @ b"
  "trivySbom jsonDeps path lm = failedResult"
  "syftSbom jsonDeps path lm = threePackageResult"
  "NormalizePackages jsonDeps = exampleNormalize"
  "MergePackages jsonDeps = exampleMerge"
  "ParseReference jsonDeps = exampleParseReference"
  by (simp_all add: jsonDeps_def exampleDeps_def)

lemma json_sbomPath [simp]: "sbomPath jsonDeps ''/tmp/image'' = ''/tmp/image/sbom.json''"
  by (simp add: sbomPath_def)

lemma json_parse_tag:
  "parseName jsonDeps ''repo/image:latest'' = Inr (''index.docker.io/repo/image'', [''latest''])"
  using example_parse_tag by (simp add: parseName_def)

lemma digit_chars:
  "digit 0 = CHR ''0''" "digit 1 = CHR ''1''" "digit 2 = CHR ''2''" "digit 3 = CHR ''3''"
  "digit 4 = CHR ''4''" "digit 5 = CHR ''5''" "digit 6 = CHR ''6''" "digit 7 = CHR ''7''"
  "digit 8 = CHR ''8''" "digit 9 = CHR ''9''" "digit (Suc 0) = CHR ''1''"
  by (simp_all add: digit_def char_of_def bit_Suc_0_iff)

lemma replicate_numeral: "replicate (numeral k) x = x # replicate (pred_numeral k) x"
  by (simp add: numeral_eq_Suc)

lemma example_marshal: "Sbom_pr 0 computedDocument = computedJson"
  by (simp add: Sbom_pr_def Source_pr_def ImageSource_pr_def Descriptor_pr_def Manifest_pr_def
      ConfigFile_pr_def RootFS_pr_def v1_Descriptor_pr_def Hash_pr_def Platform_pr_def
      Distro_pr_def Package_pr_def Cve_pr_def
      as_pr_def object_pr_def and_pr_def member_pr_def with_optional_pr_def array_pr_def
      null_or_pr_def string_pr_def int_pr_def quote_def escape_def newline_def show_int_def
      show_nat.simps digit_chars replicate_numeral
      dquote_def bslash_def lf_def joinLines_def computedJson_def computedDocument_def
      threePackages_def exampleManifest_def exampleConfig_def exampleDistro_def sha256_def)

lemma example_unmarshal: "unmarshalSbom computedJson = Inr computedDocument"
  using unmarshal_marshal [of computedDocument computedJson]
  by (simp add: marshalSbom_def example_marshal)

lemma json_run:
  "indexImage jsonDeps emptyWorld twoLayerImage ''repo/image:latest'' ''/tmp/image'' =
     Inr ((Some computedDocument, Some twoLayerImage, None),
          persist jsonDeps (emptyWorld\<lparr>trace := [RunTrivy ''/tmp/image'', RunSyft ''/tmp/image'']\<rparr>)
            ''/tmp/image/sbom.json'' computedDocument)"
proof -
  from example_mapping obtain lm where lm: "createLayerMapping twoLayerImage = Inr lm" by blast
  have miss: "cachedSbom jsonDeps emptyWorld (sbomPath jsonDeps ''/tmp/image'') = None"
    by (rule example_cached_empty)
  have a: "assemble jsonDeps twoLayerImage threePackages threePackageResult
      ''index.docker.io/repo/image'' [''latest''] = Inr computedDocument"
    by (simp add: assemble_def computedDocument_def twoLayerImage_def exampleImage_def
        exampleManifest_def exampleConfig_def threePackageResult_def Hash_String_def sha256_def)
  show ?thesis
    unfolding indexImage_computed [OF miss lm]
    using a
    by (simp add: Let_def threePackageResult_def failedResult_def example_normalize
        example_merge json_parse_tag)
qed

lemma json_parse_compact:
  \<open>Package_pa ''{"name":"curl", "version" : "7.0","type":"deb","layer":"sha256:a1"}'' =
     Some (\<lparr>pkg_Name = ''curl'', pkg_Version = ''7.0'', pkg_Type = ''deb'',
             pkg_Layer = ''sha256:a1''\<rparr>, [])\<close>
  by code_simp

lemma json_parse_escapes:
  \<open>array_pa string_pa ('' [ "a'' @ bslash # ''u0041'' @ bslash # ''n" , "" ] x'') =
     Some ([[CHR ''a'', CHR ''A'', lf], ''''], '' x'')\<close>
  by code_simp

lemma json_parse_truncated:
  \<open>unmarshalSbom ''{"Artifacts": ['' = Inl (ErrorString ''invalid character'')\<close>
  by code_simp

section \<open>Claims\<close>

text \<open>
  Claim C1. \<open>indexImage\<close> returns a document with nothing scanned or written (the
  state comes back as it was) exactly when the cache is not disabled through
  \<open>ATOMIST_NO_CACHE\<close>, the file at \<open>sbomPath\<close> is a regular file whose bytes unmarshal
  to that document, and the document's \<open>Version\<close> and \<open>SbomVersion\<close> are those of the
  current build. In particular, when the persisted document carries
  another \<open>SbomVersion\<close>, no return of \<open>indexImage\<close> hands it out, and every return
  has run both engines.
\<close>

theorem cache_hit_iff:
  "((indexImage d w img imageName path = Inr ((Some sbom, Some img, None), w)) =
    (environ w ''ATOMIST_NO_CACHE'' = None \<and>
     (\<exists>b. files w (sbomPath d path) = Regular b \<and> json_Unmarshal d b = Inr sbom) \<and>
     Version (Descriptor sbom) = build_Version (FromBuild d) \<and>
     SbomVersion (Descriptor sbom) = build_SbomVersion (FromBuild d))) \<and>
   (files w (sbomPath d path) = Regular b' \<and> json_Unmarshal d b' = Inr stale \<and>
    SbomVersion (Descriptor stale) \<noteq> build_SbomVersion (FromBuild d) \<longrightarrow>
      (\<forall>r w'. indexImage d w img imageName path = Inr (r, w') \<longrightarrow>
         fst r \<noteq> Some stale \<and> (\<exists>es. trace w' = trace w @ RunTrivy path # RunSyft path # es)))"
proof (intro conjI impI allI)
  show "(indexImage d w img imageName path = Inr ((Some sbom, Some img, None), w)) =
    (environ w ''ATOMIST_NO_CACHE'' = None \<and>
     (\<exists>b. files w (sbomPath d path) = Regular b \<and> json_Unmarshal d b = Inr sbom) \<and>
     Version (Descriptor sbom) = build_Version (FromBuild d) \<and>
     SbomVersion (Descriptor sbom) = build_SbomVersion (FromBuild d))" (is "?L = ?R")
  proof
    assume run: ?L
    have "cachedSbom d w (sbomPath d path) \<noteq> None"
    proof
      assume "cachedSbom d w (sbomPath d path) = None"
      from indexImage_miss_trace [OF this run] show False by simp
    qed
    then obtain s where s: "cachedSbom d w (sbomPath d path) = Some s" by blast
    from indexImage_hit [OF s, of img imageName] run have "s = sbom" by simp
    with s show ?R by (simp add: cachedSbom_Some_iff)
  next
    assume R: ?R
    then have "cachedSbom d w (sbomPath d path) = Some sbom"
      by (simp add: cachedSbom_Some_iff)
    from indexImage_hit [OF this] show ?L .
  qed
next
  fix r w'
  assume st: "files w (sbomPath d path) = Regular b' \<and> json_Unmarshal d b' = Inr stale \<and>
    SbomVersion (Descriptor stale) \<noteq> build_SbomVersion (FromBuild d)"
    and run: "indexImage d w img imageName path = Inr (r, w')"
  have miss: "cachedSbom d w (sbomPath d path) = None"
  proof (cases "cachedSbom d w (sbomPath d path)")
    case None
    then show ?thesis .
  next
    case (Some s)
    with st show ?thesis by (auto simp: cachedSbom_Some_iff)
  qed
  from indexImage_miss_Inr [OF miss run] st
  show "fst r \<noteq> Some stale" by auto
  from indexImage_miss_trace [OF miss run]
  show "\<exists>es. trace w' = trace w @ RunTrivy path # RunSyft path # es" .
qed

text \<open>
  The theorem at two caches of the example image: a current document, which is
  returned as it is, and a document of schema version 5, which is recomputed.
\<close>

theorem cache_hit_iff_witness:
  "indexImage exampleDeps (worldWith ''sbom-v6'') twoLayerImage ''repo/image:latest'' ''/tmp/image'' =
     Inr ((Some (persistedDocument ''6''), Some twoLayerImage, None), worldWith ''sbom-v6'') \<and>
   (\<exists>sbom w'.
      indexImage exampleDeps (worldWith ''sbom-v5'') twoLayerImage ''repo/image:latest'' ''/tmp/image'' =
        Inr ((Some sbom, Some twoLayerImage, None), w') \<and>
      sbom \<noteq> persistedDocument ''5'' \<and>
      (\<exists>es. trace w' = trace (worldWith ''sbom-v5'') @ RunTrivy ''/tmp/image'' # RunSyft ''/tmp/image'' # es))"
proof -
  let ?d = exampleDeps and ?img = twoLayerImage and ?n = "''repo/image:latest''" and ?p = "''/tmp/image''"
  have v6: "environ (worldWith ''sbom-v6'') ''ATOMIST_NO_CACHE'' = None \<and>
     (\<exists>b. files (worldWith ''sbom-v6'') (sbomPath ?d ?p) = Regular b \<and>
          json_Unmarshal ?d b = Inr (persistedDocument ''6'')) \<and>
     Version (Descriptor (persistedDocument ''6'')) = build_Version (FromBuild ?d) \<and>
     SbomVersion (Descriptor (persistedDocument ''6'')) = build_SbomVersion (FromBuild ?d)"
    by (simp add: exampleUnmarshal_def persistedDocument_def)
  have hit: "indexImage ?d (worldWith ''sbom-v6'') ?img ?n ?p =
     Inr ((Some (persistedDocument ''6''), Some ?img, None), worldWith ''sbom-v6'')"
    using cache_hit_iff [where d = ?d and w = "worldWith ''sbom-v6''" and img = ?img
        and imageName = ?n and path = ?p and sbom = "persistedDocument ''6''"] v6
    by blast
  have v5: "files (worldWith ''sbom-v5'') (sbomPath ?d ?p) = Regular ''sbom-v5'' \<and>
     json_Unmarshal ?d ''sbom-v5'' = Inr (persistedDocument ''5'') \<and>
     SbomVersion (Descriptor (persistedDocument ''5'')) \<noteq> build_SbomVersion (FromBuild ?d)"
    by (simp add: exampleUnmarshal_def persistedDocument_def)
  from example_mapping obtain lm where lm: "createLayerMapping ?img = Inr lm" by blast
  have norm: "snd (NormalizePackages ?d (Packages (syftSbom ?d ?p lm))) = None"
    by (simp add: threePackageResult_def example_normalize)
  have miss: "cachedSbom ?d (worldWith ''sbom-v5'') (sbomPath ?d ?p) = None"
    by (simp add: example_cached_stale)
  from indexImage_assembled [OF miss lm norm example_parse_tag]
  obtain sbom w' where run:
    "indexImage ?d (worldWith ''sbom-v5'') ?img ?n ?p = Inr ((Some sbom, Some ?img, None), w')"
    by blast
  from cache_hit_iff [where d = ?d and w = "worldWith ''sbom-v5''" and img = ?img
      and imageName = ?n and path = ?p and b' = "''sbom-v5''" and stale = "persistedDocument ''5''"]
    v5 run
  have "sbom \<noteq> persistedDocument ''5'' \<and>
    (\<exists>es. trace w' = trace (worldWith ''sbom-v5'') @ RunTrivy ?p # RunSyft ?p # es)"
    by fastforce
  with hit run show ?thesis by blast
qed

text \<open>
  Claim C2 at an image on which trivy reports a package whose layer cannot be
  resolved while syft's three packages normalize: the error of the first
  \<open>NormalizePackages\<close> call is overwritten by the second call's nil, and \<open>indexImage\<close>
  returns a document and a nil error. With the engines' roles exchanged, the error of
  the second call is returned as the claim says.
\<close>

theorem trivy_normalization_error_dropped:
  "snd (NormalizePackages (exampleDeps\<lparr>trivySbom := (\<lambda>path lm. unresolvedResult)\<rparr>)
          (Packages unresolvedResult)) = Some (ErrorString ''layer not found'') \<and>
   (\<exists>sbom w'.
      indexImage (exampleDeps\<lparr>trivySbom := (\<lambda>path lm. unresolvedResult)\<rparr>) emptyWorld twoLayerImage
          ''repo/image:latest'' ''/tmp/image'' =
        Inr ((Some sbom, Some twoLayerImage, None), w') \<and>
      Artifacts sbom = threePackages) \<and>
   (\<exists>w'.
      indexImage (exampleDeps\<lparr>syftSbom := (\<lambda>path lm. unresolvedResult)\<rparr>) emptyWorld twoLayerImage
          ''repo/image:latest'' ''/tmp/image'' =
        Inr ((None, None,
              Some (Wrap (ErrorString ''layer not found'')
                      ''failed to normalize packagess: repo/image:latest'')), w'))"
proof -
  let ?img = twoLayerImage and ?p = "''/tmp/image''" and ?n = "''repo/image:latest''"
  let ?dt = "exampleDeps\<lparr>trivySbom := (\<lambda>path lm. unresolvedResult)\<rparr>"
  let ?ds = "exampleDeps\<lparr>syftSbom := (\<lambda>path lm. unresolvedResult)\<rparr>"
  from example_mapping obtain lm where lm: "createLayerMapping ?img = Inr lm" by blast
  have a: "snd (NormalizePackages ?dt (Packages unresolvedResult)) = Some (ErrorString ''layer not found'')"
    by (simp add: unresolvedResult_def example_normalize)
  have misst: "cachedSbom ?dt emptyWorld (sbomPath ?dt ?p) = None" by (rule example_cached_empty)
  have normt: "snd (NormalizePackages ?dt (Packages (syftSbom ?dt ?p lm))) = None"
    by (simp add: threePackageResult_def example_normalize)
  have pnt: "parseName ?dt ?n = Inr (''index.docker.io/repo/image'', [''latest''])"
    by (simp add: parseName_def exampleParseReference_def strings_HasPrefix_def)
  from indexImage_assembled [OF misst lm normt pnt]
  have b: "\<exists>sbom w'. indexImage ?dt emptyWorld ?img ?n ?p = Inr ((Some sbom, Some ?img, None), w') \<and>
      Artifacts sbom = threePackages"
    by (auto simp: threePackageResult_def unresolvedResult_def example_normalize example_merge)
  have misss: "cachedSbom ?ds emptyWorld (sbomPath ?ds ?p) = None" by (rule example_cached_empty)
  have norms: "snd (NormalizePackages ?ds (Packages (syftSbom ?ds ?p lm))) =
      Some (ErrorString ''layer not found'')"
    by (simp add: unresolvedResult_def example_normalize)
  from indexImage_normalize_error [OF misss lm norms, of ?n]
  have c: "\<exists>w'. indexImage ?ds emptyWorld ?img ?n ?p =
      Inr ((None, None,
            Some (Wrap (ErrorString ''layer not found'')
                    ''failed to normalize packagess: repo/image:latest'')), w')"
    by simp
  from a b c show ?thesis by blast
qed

text \<open>
  Claim C3 at an image whose pipeline succeeds and whose vulnerability lookup fails:
  the record carries the computed document, \<open>Vulnerabilities\<close> unset, and its \<open>Error\<close>
  field carries the lookup's error.
\<close>

theorem enrichment_error_reported:
  "\<exists>sbom w'.
     IndexImage (exampleDeps\<lparr>QueryCves := (\<lambda>sbom. (None, Some (ErrorString ''lookup failed'')))\<rparr>)
         emptyWorld ''repo/image:latest'' APIClient =
       Inr ((Some sbom, Some twoLayerImage, None), w') \<and>
     indexImageAsync (exampleDeps\<lparr>QueryCves := (\<lambda>sbom. (None, Some (ErrorString ''lookup failed'')))\<rparr>)
         emptyWorld ''repo/image:latest'' APIClient =
       Inr (\<lparr>Input = ''repo/image:latest'', out_Image = Some twoLayerImage, out_Sbom = Some sbom,
             out_Error = Some (ErrorString ''lookup failed'')\<rparr>, w') \<and>
     Vulnerabilities sbom = None"
proof -
  let ?d = exampleDeps and ?img = twoLayerImage and ?p = "''/tmp/image''"
    and ?n = "''repo/image:latest''"
  let ?dq = "exampleDeps\<lparr>QueryCves := (\<lambda>sbom. (None, Some (ErrorString ''lookup failed'')))\<rparr>"
  from example_mapping obtain lm where lm: "createLayerMapping ?img = Inr lm" by blast
  have miss: "cachedSbom ?d emptyWorld (sbomPath ?d ?p) = None" by (rule example_cached_empty)
  have norm: "snd (NormalizePackages ?d (Packages (syftSbom ?d ?p lm))) = None"
    by (simp add: threePackageResult_def example_normalize)
  from indexImage_assembled [OF miss lm norm example_parse_tag]
  obtain sbom w' where run: "indexImage ?d emptyWorld ?img ?n ?p = Inr ((Some sbom, Some ?img, None), w')"
    and v: "Vulnerabilities sbom = None" by blast
  have same: "indexImage ?dq emptyWorld ?img ?n ?p = indexImage ?d emptyWorld ?img ?n ?p"
    by (simp add: indexImage_def cachedSbom_def sbomPath_def runEngines_def normalizeResults_def
        parseName_def assemble_def persist_def Let_def split_def
        cong: option.case_cong sum.case_cong if_cong)
  have s: "SaveImage ?dq ?n APIClient = Inr (?img, ?p)" by simp
  from IndexImage_downloaded [OF s, of emptyWorld] run same
  have r2: "IndexImage ?dq emptyWorld ?n APIClient = Inr ((Some sbom, Some ?img, None), w')" by simp
  have q: "QueryCves ?dq (Some sbom) = (None, Some (ErrorString ''lookup failed''))" by simp
  from indexImageAsync_enrichment_error [OF r2 q] r2 v show ?thesis by blast
qed

text \<open>
  Claim C4 at an image that cannot be downloaded: \<open>IndexImage\<close> returns the wrapped
  download error, and the record's \<open>Error\<close> field holds what \<open>QueryCves\<close> returned for
  the nil document instead. Where \<open>QueryCves\<close> returns no error for the nil document,
  line 50 dereferences it and no record is sent.
\<close>

theorem pipeline_error_overwritten:
  "IndexImage exampleDeps emptyWorld ''repo/missing:latest'' APIClient =
     Inr ((None, None, Some (Wrap (ErrorString ''manifest unknown'') ''failed to download image'')),
          emptyWorld) \<and>
   indexImageAsync exampleDeps emptyWorld ''repo/missing:latest'' APIClient =
     Inr (\<lparr>Input = ''repo/missing:latest'', out_Image = None, out_Sbom = None,
           out_Error = Some (ErrorString ''no document'')\<rparr>, emptyWorld) \<and>
   indexImageAsync (exampleDeps\<lparr>QueryCves := (\<lambda>sbom. (Some [], None))\<rparr>) emptyWorld
       ''repo/missing:latest'' APIClient =
     Inl NilPointerDereference"
proof -
  let ?d = exampleDeps and ?n = "''repo/missing:latest''"
  let ?dq = "exampleDeps\<lparr>QueryCves := (\<lambda>sbom. (Some [], None))\<rparr>"
  have s: "SaveImage ?d ?n APIClient = Inl (ErrorString ''manifest unknown'')"
    "SaveImage ?dq ?n APIClient = Inl (ErrorString ''manifest unknown'')"
    by simp_all
  note r1 = IndexImage_download_error [OF s(1), of emptyWorld]
  note r2 = IndexImage_download_error [OF s(2), of emptyWorld]
  have q1: "QueryCves ?d None = (None, Some (ErrorString ''no document''))"
    by (simp add: exampleQueryCves_def)
  have q2: "QueryCves ?dq None = (Some [], None)" by simp
  from indexImageAsync_enrichment_error [OF r1 q1] indexImageAsync_enriched [OF r2 q2] r1
  show ?thesis by simp
qed

text \<open>
  Claim C5. In a run that computes the document (no cache hit, the layer mapping
  built): when one engine's result carries an error and no packages and the other's
  carries three packages, both lists normalize to themselves, merging with an empty
  side gives the other side's packages, and the name is empty or parses, \<open>indexImage\<close>
  returns a document whose \<open>Artifacts\<close> are those three packages and a nil error.
  Whatever the engines report, an error that \<open>indexImage\<close> returns is the wrapped
  error of normalizing syft's list or the wrapped error of the reference parser, and
  never comes with a document.
\<close>

theorem engine_error_not_propagated:
  assumes miss: "cachedSbom d w (sbomPath d path) = None"
    and lm: "createLayerMapping img = Inr lm"
  shows "((Packages (trivySbom d path lm) = [] \<and> ir_Error (trivySbom d path lm) = Some err \<and>
             Packages (syftSbom d path lm) = ps \<or>
           Packages (syftSbom d path lm) = [] \<and> ir_Error (syftSbom d path lm) = Some err \<and>
             Packages (trivySbom d path lm) = ps) \<and>
          length ps = 3 \<and>
          NormalizePackages d [] = ([], None) \<and> NormalizePackages d ps = (ps, None) \<and>
          (\<forall>a b. Packages a = ps \<and> Packages b = [] \<or> Packages a = [] \<and> Packages b = ps \<longrightarrow>
                 MergePackages d a b = ps) \<and>
          parseName d imageName = Inr (n, tag) \<longrightarrow>
            (\<exists>sbom w'. indexImage d w img imageName path = Inr ((Some sbom, Some img, None), w') \<and>
               Artifacts sbom = ps)) \<and>
         (\<forall>s i x w'. indexImage d w img imageName path = Inr ((s, i, Some x), w') \<longrightarrow>
            s = None \<and>
            ((\<exists>e. snd (NormalizePackages d (Packages (syftSbom d path lm))) = Some e \<and>
                  x = Wrap e (''failed to normalize packagess: '' @ imageName)) \<or>
             (\<exists>e. ParseReference d imageName = Inl e \<and>
                  x = Wrap e (''failed to parse reference: '' @ imageName))))"
proof -
  let ?tr = "trivySbom d path lm" and ?sy = "syftSbom d path lm"
  let ?tr' = "?tr\<lparr>Packages := fst (NormalizePackages d (Packages ?tr))\<rparr>"
  let ?sy' = "?sy\<lparr>Packages := fst (NormalizePackages d (Packages ?sy))\<rparr>"
  have a: "\<exists>sbom w'. indexImage d w img imageName path = Inr ((Some sbom, Some img, None), w') \<and>
      Artifacts sbom = ps"
    if one: "Packages ?tr = [] \<and> Packages ?sy = ps \<or> Packages ?sy = [] \<and> Packages ?tr = ps"
      and n0: "NormalizePackages d [] = ([], None)" and n1: "NormalizePackages d ps = (ps, None)"
      and mg: "\<forall>a b. Packages a = ps \<and> Packages b = [] \<or> Packages a = [] \<and> Packages b = ps \<longrightarrow>
                 MergePackages d a b = ps"
      and nm: "parseName d imageName = Inr (n, tag)"
  proof -
    from one n0 n1 have norm: "snd (NormalizePackages d (Packages ?sy)) = None" by auto
    from one n0 n1 have "Packages ?sy' = ps \<and> Packages ?tr' = [] \<or> Packages ?sy' = [] \<and> Packages ?tr' = ps"
      by auto
    with mg have m: "MergePackages d ?sy' ?tr' = ps" by blast
    from indexImage_assembled [OF miss lm norm nm] m show ?thesis by auto
  qed
  have b: "s = None \<and>
      ((\<exists>e. snd (NormalizePackages d (Packages ?sy)) = Some e \<and>
            x = Wrap e (''failed to normalize packagess: '' @ imageName)) \<or>
       (\<exists>e. ParseReference d imageName = Inl e \<and>
            x = Wrap e (''failed to parse reference: '' @ imageName)))"
    if run: "indexImage d w img imageName path = Inr ((s, i, Some x), w')" for s i x w'
  proof -
    from indexImage_miss_Inr [OF miss run] lm
    have "s = None \<and>
      ((\<exists>e. snd (NormalizePackages d (Packages ?sy)) = Some e \<and>
            x = Wrap e (''failed to normalize packagess: '' @ imageName)) \<or>
       parseName d imageName = Inl x)"
      by auto
    moreover have "\<exists>e. ParseReference d imageName = Inl e \<and>
        x = Wrap e (''failed to parse reference: '' @ imageName)"
      if "parseName d imageName = Inl x"
      using that by (auto simp: parseName_def split: if_splits sum.splits)
    ultimately show ?thesis by blast
  qed
  from a b show ?thesis by blast
qed

text \<open>
  The theorem at the example image: trivy failing and syft finding three packages,
  the roles exchanged, and a run that returns an error (an unparsable name).
\<close>

theorem engine_error_not_propagated_witness:
  "(\<exists>sbom w'.
      indexImage exampleDeps emptyWorld twoLayerImage ''repo/image:latest'' ''/tmp/image'' =
        Inr ((Some sbom, Some twoLayerImage, None), w') \<and>
      Artifacts sbom = threePackages) \<and>
   (\<exists>sbom w'.
      indexImage
        (exampleDeps\<lparr>trivySbom := (\<lambda>path lm. threePackageResult), syftSbom := (\<lambda>path lm. failedResult)\<rparr>)
        emptyWorld twoLayerImage ''repo/image:latest'' ''/tmp/image'' =
        Inr ((Some sbom, Some twoLayerImage, None), w') \<and>
      Artifacts sbom = threePackages) \<and>
   length threePackages = 3 \<and>
   ir_Error failedResult = Some (ErrorString ''scan failed'') \<and>
   (\<exists>e w'.
      indexImage exampleDeps emptyWorld twoLayerImage ''Not A Reference'' ''/tmp/image'' =
        Inr ((None, None, Some (Wrap e ''failed to parse reference: Not A Reference'')), w') \<and>
      ParseReference exampleDeps ''Not A Reference'' = Inl e)"
proof -
  let ?d = exampleDeps and ?img = twoLayerImage and ?p = "''/tmp/image''"
  let ?d' = "exampleDeps\<lparr>trivySbom := (\<lambda>path lm. threePackageResult),
      syftSbom := (\<lambda>path lm. failedResult)\<rparr>"
  from example_mapping obtain lm where lm: "createLayerMapping ?img = Inr lm" by blast
  have miss: "cachedSbom ?d emptyWorld (sbomPath ?d ?p) = None" by (rule example_cached_empty)
  have miss': "cachedSbom ?d' emptyWorld (sbomPath ?d' ?p) = None" by (rule example_cached_empty)
  have len: "length threePackages = 3" by (simp add: threePackages_def)
  have err: "ir_Error failedResult = Some (ErrorString ''scan failed'')"
    by (simp add: failedResult_def)
  have mg0: "\<forall>a b. Packages a = threePackages \<and> Packages b = [] \<or>
        Packages a = [] \<and> Packages b = threePackages \<longrightarrow> exampleMerge a b = threePackages"
    using example_merge by blast
  have mg: "\<forall>a b. Packages a = threePackages \<and> Packages b = [] \<or>
        Packages a = [] \<and> Packages b = threePackages \<longrightarrow> MergePackages ?d a b = threePackages"
    unfolding exampleDeps_fields by (rule mg0)
  have mg': "\<forall>a b. Packages a = threePackages \<and> Packages b = [] \<or>
        Packages a = [] \<and> Packages b = threePackages \<longrightarrow> MergePackages ?d' a b = threePackages"
    using mg0 by simp
  have n0: "NormalizePackages ?d [] = ([], None)"
    and n1: "NormalizePackages ?d threePackages = (threePackages, None)"
    and n0': "NormalizePackages ?d' [] = ([], None)"
    and n1': "NormalizePackages ?d' threePackages = (threePackages, None)"
    by (simp_all add: example_normalize)
  have sc: "Packages (trivySbom ?d ?p lm) = [] \<and>
      ir_Error (trivySbom ?d ?p lm) = Some (ErrorString ''scan failed'') \<and>
      Packages (syftSbom ?d ?p lm) = threePackages"
    by (simp add: failedResult_def threePackageResult_def)
  have sc': "Packages (syftSbom ?d' ?p lm) = [] \<and>
      ir_Error (syftSbom ?d' ?p lm) = Some (ErrorString ''scan failed'') \<and>
      Packages (trivySbom ?d' ?p lm) = threePackages"
    by (simp add: failedResult_def threePackageResult_def)
  have pn': "parseName ?d' ''repo/image:latest'' = Inr (''index.docker.io/repo/image'', [''latest''])"
    by (simp add: parseName_def exampleParseReference_def strings_HasPrefix_def)
  from sc len n0 n1 mg example_parse_tag
  have hyp: "(Packages (trivySbom ?d ?p lm) = [] \<and>
        ir_Error (trivySbom ?d ?p lm) = Some (ErrorString ''scan failed'') \<and>
        Packages (syftSbom ?d ?p lm) = threePackages \<or>
      Packages (syftSbom ?d ?p lm) = [] \<and>
        ir_Error (syftSbom ?d ?p lm) = Some (ErrorString ''scan failed'') \<and>
        Packages (trivySbom ?d ?p lm) = threePackages) \<and>
     length threePackages = 3 \<and>
     NormalizePackages ?d [] = ([], None) \<and> NormalizePackages ?d threePackages = (threePackages, None) \<and>
     (\<forall>a b. Packages a = threePackages \<and> Packages b = [] \<or>
        Packages a = [] \<and> Packages b = threePackages \<longrightarrow> MergePackages ?d a b = threePackages) \<and>
     parseName ?d ''repo/image:latest'' = Inr (''index.docker.io/repo/image'', [''latest''])"
    by blast
  from sc' len n0' n1' mg' pn'
  have hyp': "(Packages (trivySbom ?d' ?p lm) = [] \<and>
        ir_Error (trivySbom ?d' ?p lm) = Some (ErrorString ''scan failed'') \<and>
        Packages (syftSbom ?d' ?p lm) = threePackages \<or>
      Packages (syftSbom ?d' ?p lm) = [] \<and>
        ir_Error (syftSbom ?d' ?p lm) = Some (ErrorString ''scan failed'') \<and>
        Packages (trivySbom ?d' ?p lm) = threePackages) \<and>
     length threePackages = 3 \<and>
     NormalizePackages ?d' [] = ([], None) \<and> NormalizePackages ?d' threePackages = (threePackages, None) \<and>
     (\<forall>a b. Packages a = threePackages \<and> Packages b = [] \<or>
        Packages a = [] \<and> Packages b = threePackages \<longrightarrow> MergePackages ?d' a b = threePackages) \<and>
     parseName ?d' ''repo/image:latest'' = Inr (''index.docker.io/repo/image'', [''latest''])"
    by blast
  from engine_error_not_propagated [OF miss lm, THEN conjunct1, rule_format, OF hyp]
  have a: "\<exists>sbom w'. indexImage ?d emptyWorld ?img ''repo/image:latest'' ?p =
        Inr ((Some sbom, Some ?img, None), w') \<and> Artifacts sbom = threePackages" .
  from engine_error_not_propagated [OF miss' lm, THEN conjunct1, rule_format, OF hyp']
  have b: "\<exists>sbom w'. indexImage ?d' emptyWorld ?img ''repo/image:latest'' ?p =
        Inr ((Some sbom, Some ?img, None), w') \<and> Artifacts sbom = threePackages" .
  have norm: "snd (NormalizePackages ?d (Packages (syftSbom ?d ?p lm))) = None"
    by (simp add: threePackageResult_def example_normalize)
  from indexImage_parse_error [OF miss lm norm example_parse_bad]
  have run: "indexImage ?d emptyWorld ?img ''Not A Reference'' ?p =
      Inr ((None, None,
            Some (Wrap (ErrorString ''could not parse reference'')
                   ''failed to parse reference: Not A Reference'')),
           emptyWorld\<lparr>trace := trace emptyWorld @ [RunTrivy ?p, RunSyft ?p]\<rparr>)" .
  from engine_error_not_propagated [OF miss lm, THEN conjunct2, rule_format, OF run] norm
  have c: "\<exists>e. ParseReference ?d ''Not A Reference'' = Inl e \<and>
      Wrap (ErrorString ''could not parse reference'') ''failed to parse reference: Not A Reference'' =
      Wrap e (''failed to parse reference: '' @ ''Not A Reference'')"
    by simp
  then obtain e where e: "ParseReference ?d ''Not A Reference'' = Inl e"
    and "ErrorString ''could not parse reference'' = e" by auto
  with run have d: "\<exists>e w'.
      indexImage ?d emptyWorld ?img ''Not A Reference'' ?p =
        Inr ((None, None, Some (Wrap e ''failed to parse reference: Not A Reference'')), w') \<and>
      ParseReference ?d ''Not A Reference'' = Inl e"
    by blast
  from a b len err d show ?thesis by blast
qed

text \<open>
  Claim C6, as stated, fails on an image that repeats a layer: both layers share one
  diff ID and one digest, the lists are index-aligned and of equal length, and the
  maps keyed by a hash hold one entry for the two ordinals.
\<close>

theorem createLayerMapping_repeated_layer:
  "img_ConfigFile repeatedLayerImage = Some (exampleConfig [sha256 ''a1'', sha256 ''a1'']) \<and>
   img_Manifest repeatedLayerImage = Some (exampleManifest [sha256 ''b1'', sha256 ''b1'']) \<and>
   length (DiffIDs (RootFS (exampleConfig [sha256 ''a1'', sha256 ''a1'']))) =
     length (Layers (exampleManifest [sha256 ''b1'', sha256 ''b1''])) \<and>
   createLayerMapping repeatedLayerImage = Inr repeatedLayerMapping \<and>
   DiffIdByOrdinal repeatedLayerMapping 0 = Some ''sha256:a1'' \<and>
   OrdinalByDiffId repeatedLayerMapping ''sha256:a1'' = Some 1 \<and>
   \<not> bidirectionalAt repeatedLayerMapping 0 \<and>
   card (dom (ByDiffId repeatedLayerMapping)) = 1 \<and>
   card (dom (ByDigest repeatedLayerMapping)) = 1 \<and>
   card (dom (OrdinalByDiffId repeatedLayerMapping)) = 1"
  by (simp add: repeatedLayerImage_def exampleImage_def exampleConfig_def exampleManifest_def
      createLayerMapping_def emptyLayerMapping_def layerBody_def repeatedLayerMapping_def
      sha256_def Hash_String_def bidirectionalAt_def)

text \<open>
  Claim C6, amended. For an image whose \<open>DiffIDs\<close> and \<open>Layers\<close> are of equal length,
  whose diff IDs are pairwise distinct and whose layer digests are pairwise distinct,
  \<open>createLayerMapping\<close> returns a mapping that is bidirectional at every ordinal in
  range, and each of the five maps has as many entries as the image has layers.
\<close>

theorem createLayerMapping_bidirectional:
  assumes cfg: "img_ConfigFile img = Some c" and man: "img_Manifest img = Some m"
    and len: "length (DiffIDs (RootFS c)) = length (Layers m)"
    and dd: "distinct (layerDiffIds c)" and dg: "distinct (layerDigests m)"
  shows "\<exists>lm. createLayerMapping img = Inr lm \<and>
           (\<forall>i < length (Layers m). bidirectionalAt lm i) \<and>
           card (dom (ByDiffId lm)) = length (Layers m) \<and>
           card (dom (ByDigest lm)) = length (Layers m) \<and>
           card (dom (DiffIdByOrdinal lm)) = length (Layers m) \<and>
           card (dom (DigestByOrdinal lm)) = length (Layers m) \<and>
           card (dom (OrdinalByDiffId lm)) = length (Layers m)"
proof -
  let ?ds = "DiffIDs (RootFS c)" and ?ls = "Layers m"
  from len have "0 + length ?ls \<le> length ?ds" by simp
  from layerLoop_returns [OF this]
  obtain lm where run: "layerLoop ?ds 0 ?ls emptyLayerMapping = Inr lm" by blast
  with cfg man have res: "createLayerMapping img = Inr lm"
    by (simp add: createLayerMapping_def)
  from dd len have dd': "distinct (map Hash_String (take (length ?ls) (drop 0 ?ds)))"
    by (simp add: layerDiffIds_def)
  from dg have dg': "distinct (map (\<lambda>l. Hash_String (Digest l)) ?ls)"
    by (simp add: layerDigests_def)
  have bi: "bidirectionalAt lm i" if i: "i < length ?ls" for i
  proof -
    from layerLoop_ordinals [OF run, of i] i
    have o1: "DiffIdByOrdinal lm i = Some (Hash_String (?ds ! i))"
      and o2: "DigestByOrdinal lm i = Some (Hash_String (Digest (?ls ! i)))" by simp_all
    from layerLoop_by_digest [OF run dg' i]
    have b1: "ByDigest lm (Hash_String (Digest (?ls ! i))) = Some (Hash_String (?ds ! i))" by simp
    from layerLoop_by_diffId [OF run dd' i]
    have b2: "OrdinalByDiffId lm (Hash_String (?ds ! i)) = Some i" by simp
    from o1 o2 b1 b2 show ?thesis by (simp add: bidirectionalAt_def)
  qed
  from layerLoop_dom [OF run] len
  have d1: "dom (ByDigest lm) = set (layerDigests m)"
    and d2: "dom (ByDiffId lm) = set (layerDiffIds c)"
    and d3: "dom (OrdinalByDiffId lm) = set (layerDiffIds c)"
    and d4: "dom (DiffIdByOrdinal lm) = {0 ..< length ?ls}"
    and d5: "dom (DigestByOrdinal lm) = {0 ..< length ?ls}"
    by (simp_all add: emptyLayerMapping_def layerDigests_def layerDiffIds_def)
  have "length (layerDiffIds c) = length ?ls" using len by (simp add: layerDiffIds_def)
  with distinct_card [OF dd] have c1: "card (set (layerDiffIds c)) = length ?ls" by simp
  have "length (layerDigests m) = length ?ls" by (simp add: layerDigests_def)
  with distinct_card [OF dg] have c2: "card (set (layerDigests m)) = length ?ls" by simp
  from res bi c1 c2 show ?thesis by (simp add: d1 d2 d3 d4 d5)
qed

text \<open>The theorem at the example image of two distinct layers.\<close>

theorem createLayerMapping_bidirectional_witness:
  "\<exists>lm. createLayerMapping twoLayerImage = Inr lm \<and>
     bidirectionalAt lm 0 \<and> bidirectionalAt lm 1 \<and>
     card (dom (ByDiffId lm)) = 2 \<and> card (dom (ByDigest lm)) = 2 \<and>
     card (dom (DiffIdByOrdinal lm)) = 2 \<and> card (dom (DigestByOrdinal lm)) = 2 \<and>
     card (dom (OrdinalByDiffId lm)) = 2"
proof -
  have a: "img_ConfigFile twoLayerImage = Some (exampleConfig [sha256 ''a1'', sha256 ''a2''])"
    and b: "img_Manifest twoLayerImage = Some (exampleManifest [sha256 ''b1'', sha256 ''b2''])"
    by (simp_all add: twoLayerImage_def exampleImage_def)
  have c: "length (DiffIDs (RootFS (exampleConfig [sha256 ''a1'', sha256 ''a2'']))) =
      length (Layers (exampleManifest [sha256 ''b1'', sha256 ''b2'']))"
    by (simp add: exampleConfig_def exampleManifest_def)
  have d: "distinct (layerDiffIds (exampleConfig [sha256 ''a1'', sha256 ''a2'']))"
    by (simp add: layerDiffIds_def exampleConfig_def sha256_def Hash_String_def)
  have e: "distinct (layerDigests (exampleManifest [sha256 ''b1'', sha256 ''b2'']))"
    by (simp add: layerDigests_def exampleManifest_def sha256_def Hash_String_def)
  have n: "length (Layers (exampleManifest [sha256 ''b1'', sha256 ''b2''])) = 2"
    by (simp add: exampleManifest_def)
  from createLayerMapping_bidirectional [OF a b c d e]
  show ?thesis unfolding n by (auto simp: numeral_2_eq_2 less_Suc_eq)
qed

text \<open>
  Claim C7, as stated, fails when the persisted document is a cache hit: line 92
  returns before the name is read, so a name the parser rejects does not fail the run.
\<close>

theorem unparsable_name_on_cache_hit:
  "ParseReference exampleDeps ''Not A Reference'' = Inl (ErrorString ''could not parse reference'') \<and>
   indexImage exampleDeps (worldWith ''sbom-v6'') twoLayerImage ''Not A Reference'' ''/tmp/image'' =
     Inr ((Some (persistedDocument ''6''), Some twoLayerImage, None), worldWith ''sbom-v6'')"
  using indexImage_hit [of exampleDeps "worldWith ''sbom-v6''" "''/tmp/image''"]
  by (simp add: example_cached_current exampleParseReference_def digestReference_def)

text \<open>
  Claim C7, amended. In a run that computes the document (no cache hit, the layer
  mapping built, syft's list normalized without error) with a non-empty name: when
  the parser accepts the name, \<open>indexImage\<close> returns a document whose
  \<open>Source.Image.Name\<close> is the parsed reference's \<open>Context().String()\<close> and whose \<open>Tags\<close>
  is the one-element list of the reference's identifier, or unset when the identifier
  starts with \<open>sha256:\<close>; when the parser rejects the name, \<open>indexImage\<close> returns no
  document and the parser's error wrapped with the name.
\<close>

theorem reference_name_when_computed:
  assumes miss: "cachedSbom d w (sbomPath d path) = None"
    and lm: "createLayerMapping img = Inr lm"
    and norm: "snd (NormalizePackages d (Packages (syftSbom d path lm))) = None"
    and name: "imageName \<noteq> []"
  shows "(\<forall>ref. ParseReference d imageName = Inr ref \<longrightarrow>
            (\<exists>sbom w'.
               indexImage d w img imageName path = Inr ((Some sbom, Some img, None), w') \<and>
               Name (Image (Source sbom)) = ref_Context ref \<and>
               Tags (Image (Source sbom)) =
                 (if strings_HasPrefix (ref_Identifier ref) ''sha256:'' then None
                  else Some [ref_Identifier ref]))) \<and>
         (\<forall>e. ParseReference d imageName = Inl e \<longrightarrow>
            (\<exists>w'. indexImage d w img imageName path =
               Inr ((None, None, Some (Wrap e (''failed to parse reference: '' @ imageName))), w')))"
proof (intro conjI allI impI)
  fix ref
  assume ref: "ParseReference d imageName = Inr ref"
  let ?tag = "if strings_HasPrefix (ref_Identifier ref) ''sha256:'' then [] else [ref_Identifier ref]"
  from ref name have p: "parseName d imageName = Inr (ref_Context ref, ?tag)"
    by (simp add: parseName_nonempty)
  from indexImage_assembled [OF miss lm norm p]
  show "\<exists>sbom w'.
      indexImage d w img imageName path = Inr ((Some sbom, Some img, None), w') \<and>
      Name (Image (Source sbom)) = ref_Context ref \<and>
      Tags (Image (Source sbom)) =
        (if strings_HasPrefix (ref_Identifier ref) ''sha256:'' then None
         else Some [ref_Identifier ref])"
    by (cases "strings_HasPrefix (ref_Identifier ref) ''sha256:''") auto
next
  fix e
  assume e: "ParseReference d imageName = Inl e"
  with name have p: "parseName d imageName =
      Inl (Wrap e (''failed to parse reference: '' @ imageName))"
    by (simp add: parseName_nonempty)
  from indexImage_parse_error [OF miss lm norm p]
  show "\<exists>w'. indexImage d w img imageName path =
      Inr ((None, None, Some (Wrap e (''failed to parse reference: '' @ imageName))), w')"
    by blast
qed

text \<open>
  The theorem at a tag reference, a digest reference and a rejected name, for a parser
  that prints the repository of \<open>repo/image\<close> with its registry.
\<close>

theorem reference_name_when_computed_witness:
  "(\<exists>sbom w'.
      indexImage exampleDeps emptyWorld twoLayerImage ''repo/image:latest'' ''/tmp/image'' =
        Inr ((Some sbom, Some twoLayerImage, None), w') \<and>
      Name (Image (Source sbom)) = ''index.docker.io/repo/image'' \<and>
      Tags (Image (Source sbom)) = Some [''latest'']) \<and>
   (\<exists>sbom w'.
      indexImage exampleDeps emptyWorld twoLayerImage digestReference ''/tmp/image'' =
        Inr ((Some sbom, Some twoLayerImage, None), w') \<and>
      Name (Image (Source sbom)) = ''index.docker.io/repo/image'' \<and>
      Tags (Image (Source sbom)) = None) \<and>
   (\<exists>w'.
      indexImage exampleDeps emptyWorld twoLayerImage ''Not A Reference'' ''/tmp/image'' =
        Inr ((None, None,
              Some (Wrap (ErrorString ''could not parse reference'')
                      ''failed to parse reference: Not A Reference'')), w'))"
proof -
  let ?d = exampleDeps and ?img = twoLayerImage and ?p = "''/tmp/image''"
  from example_mapping obtain lm where lm: "createLayerMapping ?img = Inr lm" by blast
  have miss: "cachedSbom ?d emptyWorld (sbomPath ?d ?p) = None" by (rule example_cached_empty)
  have norm: "snd (NormalizePackages ?d (Packages (syftSbom ?d ?p lm))) = None"
    by (simp add: threePackageResult_def example_normalize)
  have r1: "ParseReference ?d ''repo/image:latest'' =
      Inr \<lparr>ref_Context = ''index.docker.io/repo/image'', ref_Identifier = ''latest''\<rparr>"
    by (simp add: exampleParseReference_def)
  have r2: "ParseReference ?d digestReference =
      Inr \<lparr>ref_Context = ''index.docker.io/repo/image'', ref_Identifier = drop 11 digestReference\<rparr>"
    by (simp add: exampleParseReference_def digestReference_def)
  have r3: "ParseReference ?d ''Not A Reference'' = Inl (ErrorString ''could not parse reference'')"
    by (simp add: exampleParseReference_def digestReference_def)
  have n2: "digestReference \<noteq> []" by (simp add: digestReference_def)
  have h2: "strings_HasPrefix (drop 11 digestReference) ''sha256:''"
    by (simp add: strings_HasPrefix_def digestReference_def)
  from reference_name_when_computed [OF miss lm norm, of "''repo/image:latest''"] r1
  have a: "\<exists>sbom w'.
      indexImage ?d emptyWorld ?img ''repo/image:latest'' ?p = Inr ((Some sbom, Some ?img, None), w') \<and>
      Name (Image (Source sbom)) = ''index.docker.io/repo/image'' \<and>
      Tags (Image (Source sbom)) = Some [''latest'']"
    by (simp add: strings_HasPrefix_def)
  from reference_name_when_computed [OF miss lm norm n2] r2 h2
  have b: "\<exists>sbom w'.
      indexImage ?d emptyWorld ?img digestReference ?p = Inr ((Some sbom, Some ?img, None), w') \<and>
      Name (Image (Source sbom)) = ''index.docker.io/repo/image'' \<and>
      Tags (Image (Source sbom)) = None"
    by simp
  from reference_name_when_computed [OF miss lm norm, of "''Not A Reference''"] r3
  have c: "\<exists>w'. indexImage ?d emptyWorld ?img ''Not A Reference'' ?p =
      Inr ((None, None,
            Some (Wrap (ErrorString ''could not parse reference'')
                    ''failed to parse reference: Not A Reference'')), w')"
    by simp
  from a b c show ?thesis by blast
qed

text \<open>
  Claim C8. Let \<open>encoding/json\<close> be the JSON encoding of the document schema. Let a
  run that does not return the persisted document compute a document \<open>sbom\<close>, with the
  file at \<open>sbomPath\<close> writable. Then the file holds the indented JSON text of \<open>sbom\<close>,
  that text unmarshals to \<open>sbom\<close> itself, and a later run of a build with the same
  \<open>Version\<close> and \<open>SbomVersion\<close> that finds the file as it was written, and is not told
  to bypass the cache, returns \<open>sbom\<close>: the document read back is the one written, its
  \<open>Artifacts\<close> included. Nothing is assumed of what unmarshalling the written text
  gives: it is what the parser computes.
\<close>

theorem cache_round_trip:
  assumes enc: "json_MarshalIndent d = marshalSbom"
    and miss: "cachedSbom d w (sbomPath d path) = None"
    and run: "indexImage d w img imageName path = Inr ((Some sbom, i, e), w')"
    and wr: "\<not> unwritable w (sbomPath d path)"
    and dec: "json_Unmarshal d2 = unmarshalSbom"
    and ver: "build_Version (FromBuild d2) = build_Version (FromBuild d)"
      "build_SbomVersion (FromBuild d2) = build_SbomVersion (FromBuild d)"
    and same: "files w2 (sbomPath d2 path) = files w' (sbomPath d path)"
    and env: "environ w2 ''ATOMIST_NO_CACHE'' = None"
  shows "files w' (sbomPath d path) = Regular (Sbom_pr 0 sbom) \<and>
         unmarshalSbom (Sbom_pr 0 sbom) = Inr sbom \<and>
         indexImage d2 w2 img2 imageName2 path = Inr ((Some sbom, Some img2, None), w2)"
proof -
  let ?w1 = "w\<lparr>trace := trace w @ [RunTrivy path, RunSyft path]\<rparr>"
  have js: "json_MarshalIndent d sbom = Inr (Sbom_pr 0 sbom)"
    by (simp add: enc marshalSbom_def)
  from indexImage_miss_Inr [OF miss run]
  have w': "w' = persist d ?w1 (sbomPath d path) sbom"
    and desc: "Version (Descriptor sbom) = build_Version (FromBuild d)"
      "SbomVersion (Descriptor sbom) = build_SbomVersion (FromBuild d)"
    by auto
  from wr have "\<not> unwritable ?w1 (sbomPath d path)" by simp
  from persist_written [OF js this] w'
  have written: "files w' (sbomPath d path) = Regular (Sbom_pr 0 sbom)" by simp
  have reread: "unmarshalSbom (Sbom_pr 0 sbom) = Inr sbom"
    by (rule unmarshal_marshal) (simp add: marshalSbom_def)
  from written same have "files w2 (sbomPath d2 path) = Regular (Sbom_pr 0 sbom)" by simp
  with env dec reread desc ver have "cachedSbom d2 w2 (sbomPath d2 path) = Some sbom"
    by (simp add: cachedSbom_Some_iff)
  from indexImage_hit [OF this, of img2 imageName2] written reread show ?thesis by simp
qed

text \<open>
  The theorem at the example image: a first run on an empty directory writes the text
  \<open>computedJson\<close>; a second run, of a fresh process that finds this text, reads the
  document back with its three packages.
\<close>

theorem cache_round_trip_witness:
  "\<exists>w'.
     indexImage jsonDeps emptyWorld twoLayerImage ''repo/image:latest'' ''/tmp/image'' =
       Inr ((Some computedDocument, Some twoLayerImage, None), w') \<and>
     Artifacts computedDocument = threePackages \<and>
     files w' ''/tmp/image/sbom.json'' = Regular computedJson \<and>
     unmarshalSbom computedJson = Inr computedDocument \<and>
     indexImage jsonDeps (worldWith computedJson) twoLayerImage [] ''/tmp/image'' =
       Inr ((Some computedDocument, Some twoLayerImage, None), worldWith computedJson)"
proof -
  let ?d = jsonDeps and ?p = "''/tmp/image''"
  let ?w' = "persist ?d (emptyWorld\<lparr>trace := [RunTrivy ?p, RunSyft ?p]\<rparr>)
      ''/tmp/image/sbom.json'' computedDocument"
  have enc: "json_MarshalIndent ?d = marshalSbom" and dec: "json_Unmarshal ?d = unmarshalSbom"
    by simp_all
  have miss: "cachedSbom ?d emptyWorld (sbomPath ?d ?p) = None" by (rule example_cached_empty)
  have run: "indexImage ?d emptyWorld twoLayerImage ''repo/image:latest'' ?p =
      Inr ((Some computedDocument, Some twoLayerImage, None), ?w')"
    by (rule json_run)
  have wr: "\<not> unwritable emptyWorld (sbomPath ?d ?p)" by simp
  have same: "files (worldWith computedJson) (sbomPath ?d ?p) = files ?w' (sbomPath ?d ?p)"
    by (simp add: persist_def marshalSbom_def os_WriteFile_def example_marshal)
  have env: "environ (worldWith computedJson) ''ATOMIST_NO_CACHE'' = None" by simp
  from cache_round_trip [OF enc miss run wr dec refl refl same env, of twoLayerImage "[]"]
  have r: "files ?w' (sbomPath ?d ?p) = Regular (Sbom_pr 0 computedDocument)"
    "unmarshalSbom (Sbom_pr 0 computedDocument) = Inr computedDocument"
    "indexImage ?d (worldWith computedJson) twoLayerImage [] ?p =
       Inr ((Some computedDocument, Some twoLayerImage, None), worldWith computedJson)"
    by blast+
  have arts: "Artifacts computedDocument = threePackages" by (simp add: computedDocument_def)
  from r run arts show ?thesis by (simp add: example_marshal)
qed

text \<open>
  Claim C9. With the empty name, \<open>indexImage\<close> does not depend on the reference
  parser; a document it computes has \<open>Source.Image.Name\<close> empty and \<open>Tags\<close> unset; and an
  error it returns is the wrapped normalization error, never the parser's.
\<close>

theorem empty_name_not_parsed:
  "indexImage (d\<lparr>ParseReference := p\<rparr>) w img [] path = indexImage d w img [] path \<and>
   (cachedSbom d w (sbomPath d path) = None \<longrightarrow>
    indexImage d w img [] path = Inr ((Some sbom, i, e), w') \<longrightarrow>
      Name (Image (Source sbom)) = [] \<and> Tags (Image (Source sbom)) = None) \<and>
   (indexImage d w img [] path = Inr ((s, i, Some x), w') \<longrightarrow>
      (\<exists>err. x = Wrap err ''failed to normalize packagess: ''))"
proof -
  have a: "indexImage (d\<lparr>ParseReference := p\<rparr>) w img [] path = indexImage d w img [] path"
    by (rule indexImage_ignores_parser)
  have b: "Name (Image (Source sbom)) = [] \<and> Tags (Image (Source sbom)) = None"
    if miss: "cachedSbom d w (sbomPath d path) = None"
      and run: "indexImage d w img [] path = Inr ((Some sbom, i, e), w')"
    using indexImage_miss_Inr [OF miss run] by (auto simp: parseName_empty)
  have c: "\<exists>err. x = Wrap err ''failed to normalize packagess: ''"
    if run: "indexImage d w img [] path = Inr ((s, i, Some x), w')"
  proof (cases "cachedSbom d w (sbomPath d path)")
    case None
    from indexImage_miss_Inr [OF None run] show ?thesis
      by (auto simp: parseName_empty)
  next
    case (Some c)
    from indexImage_hit [OF Some, of img "[]"] run show ?thesis by simp
  qed
  from a b c show ?thesis by blast
qed

text \<open>
  The theorem at the example image with the empty name, and at a run whose syft list
  does not normalize.
\<close>

theorem empty_name_not_parsed_witness:
  "(\<exists>sbom w'.
      indexImage exampleDeps emptyWorld twoLayerImage [] ''/tmp/image'' =
        Inr ((Some sbom, Some twoLayerImage, None), w') \<and>
      Name (Image (Source sbom)) = [] \<and> Tags (Image (Source sbom)) = None) \<and>
   (\<exists>w'.
      indexImage (exampleDeps\<lparr>syftSbom := (\<lambda>path lm. unresolvedResult)\<rparr>) emptyWorld twoLayerImage []
          ''/tmp/image'' =
        Inr ((None, None, Some (Wrap (ErrorString ''layer not found'') ''failed to normalize packagess: '')),
             w'))"
proof -
  let ?d = exampleDeps and ?img = twoLayerImage and ?p = "''/tmp/image''"
  let ?d' = "exampleDeps\<lparr>syftSbom := (\<lambda>path lm. unresolvedResult)\<rparr>"
  from example_mapping obtain lm where lm: "createLayerMapping ?img = Inr lm" by blast
  have miss: "cachedSbom ?d emptyWorld (sbomPath ?d ?p) = None" by (rule example_cached_empty)
  have norm: "snd (NormalizePackages ?d (Packages (syftSbom ?d ?p lm))) = None"
    by (simp add: threePackageResult_def example_normalize)
  from indexImage_assembled [OF miss lm norm parseName_empty]
  obtain sbom w' where run:
    "indexImage ?d emptyWorld ?img [] ?p = Inr ((Some sbom, Some ?img, None), w')" by blast
  from empty_name_not_parsed [where d = ?d and w = emptyWorld and img = ?img and path = ?p
      and sbom = sbom and i = "Some ?img" and e = None and w' = w'] miss run
  have a: "Name (Image (Source sbom)) = [] \<and> Tags (Image (Source sbom)) = None" by blast
  have miss': "cachedSbom ?d' emptyWorld (sbomPath ?d' ?p) = None" by (rule example_cached_empty)
  have norm': "snd (NormalizePackages ?d' (Packages (syftSbom ?d' ?p lm))) =
      Some (ErrorString ''layer not found'')"
    by (simp add: unresolvedResult_def example_normalize)
  from indexImage_normalize_error [OF miss' lm norm', of "[]"]
  have run': "indexImage ?d' emptyWorld ?img [] ?p =
      Inr ((None, None, Some (Wrap (ErrorString ''layer not found'') ''failed to normalize packagess: '')),
           emptyWorld\<lparr>trace := trace emptyWorld @ [RunTrivy ?p, RunSyft ?p]\<rparr>)"
    by simp
  from a run run' show ?thesis by blast
qed

text \<open>
  Claim C10. For an image whose config and manifest are present, \<open>createLayerMapping\<close>
  returns a mapping exactly when \<open>DiffIDs\<close> is at least as long as \<open>Layers\<close>, and it
  panics on \<open>diffIds[i]\<close>, at the first index past \<open>DiffIDs\<close>, exactly when \<open>DiffIDs\<close>
  is shorter.
\<close>

theorem createLayerMapping_total_iff:
  assumes "img_ConfigFile img = Some c" and "img_Manifest img = Some m"
  shows "((\<exists>lm. createLayerMapping img = Inr lm) =
            (length (Layers m) \<le> length (DiffIDs (RootFS c)))) \<and>
         ((createLayerMapping img =
             Inl (IndexOutOfRange (length (DiffIDs (RootFS c))) (length (DiffIDs (RootFS c))))) =
            (length (DiffIDs (RootFS c)) < length (Layers m)))"
proof (cases "length (Layers m) \<le> length (DiffIDs (RootFS c))")
  case True
  then have "\<exists>r. layerLoop (DiffIDs (RootFS c)) 0 (Layers m) emptyLayerMapping = Inr r"
    by (intro layerLoop_returns) simp
  with assms True show ?thesis by (auto simp: createLayerMapping_def)
next
  case False
  then have "layerLoop (DiffIDs (RootFS c)) 0 (Layers m) emptyLayerMapping =
      Inl (IndexOutOfRange (length (DiffIDs (RootFS c))) (length (DiffIDs (RootFS c))))"
    by (intro layerLoop_panics) simp_all
  with assms False show ?thesis by (auto simp: createLayerMapping_def)
qed

text \<open>
  The theorem at an image of two layers and two diff IDs, and at one of two layers
  and a single diff ID.
\<close>

theorem createLayerMapping_total_iff_witness:
  "(\<exists>lm. createLayerMapping twoLayerImage = Inr lm) \<and>
   createLayerMapping shortConfigImage = Inl (IndexOutOfRange 1 1)"
proof -
  have a: "img_ConfigFile twoLayerImage = Some (exampleConfig [sha256 ''a1'', sha256 ''a2''])"
    and b: "img_Manifest twoLayerImage = Some (exampleManifest [sha256 ''b1'', sha256 ''b2''])"
    by (simp_all add: twoLayerImage_def exampleImage_def)
  have c: "img_ConfigFile shortConfigImage = Some (exampleConfig [sha256 ''a1''])"
    and d: "img_Manifest shortConfigImage = Some (exampleManifest [sha256 ''b1'', sha256 ''b2''])"
    by (simp_all add: shortConfigImage_def exampleImage_def)
  from createLayerMapping_total_iff [OF a b] createLayerMapping_total_iff [OF c d]
  show ?thesis by (simp add: exampleConfig_def exampleManifest_def)
qed

end
